theory Spec2Isabelle
  imports Complex_Main "HOL-Library.Log_Nat" "HOL-Library.Multiset"
begin

section \<open>Numbers and strings of the host language\<close>

text \<open>
  The pages compute with JavaScript numbers, which are IEEE 754 binary64 values. A finite
  number is modelled by the rational it denotes, and every arithmetic operation rounds the
  exact result to the nearest binary64 value, ties to even (\<open>fl\<close>). NaN, the infinities,
  negative zero and overflow beyond the largest finite value are outside the model.
\<close>

type_synonym number = rat

definition pow2 :: "int \<Rightarrow> rat" where
  "pow2 e = (if 0 \<le> e then 2 ^ nat e else 1 / 2 ^ nat (- e))"

definition ilog2 :: "rat \<Rightarrow> int" where
  \<comment> \<open>the binary exponent of a non-zero value: \<open>pow2 (ilog2 x) \<le> \<bar>x\<bar> < pow2 (ilog2 x + 1)\<close>\<close>
  "ilog2 x = (case quotient_of \<bar>x\<bar> of (p, q) \<Rightarrow>
      (let k = bitlen p - bitlen q in if pow2 k \<le> \<bar>x\<bar> then k else k - 1))"

definition roundTiesToEven :: "rat \<Rightarrow> int" where
  "roundTiesToEven q = (let f = \<lfloor>q\<rfloor>; d = q - of_int f in
      if d < 1 / 2 then f else if 1 / 2 < d then f + 1 else if even f then f else f + 1)"

definition ulpExp :: "rat \<Rightarrow> int" where
  \<comment> \<open>exponent of the last of the 53 significand bits; \<open>- 1074\<close> in the subnormal range\<close>
  "ulpExp x = max (ilog2 x - 52) (- 1074)"

definition fl :: "rat \<Rightarrow> number" where
  "fl x = (if x = 0 then 0
           else of_int (roundTiesToEven (x / pow2 (ulpExp x))) * pow2 (ulpExp x))"

definition fadd :: "number \<Rightarrow> number \<Rightarrow> number" where
  "fadd a b = fl (a + b)"

definition fmul :: "number \<Rightarrow> number \<Rightarrow> number" where
  "fmul a b = fl (a * b)"

definition fdiv :: "number \<Rightarrow> number \<Rightarrow> number" where
  \<comment> \<open>only called with a non-zero divisor: every division of the pages is guarded\<close>
  "fdiv a b = fl (a / b)"

definition Math_round :: "number \<Rightarrow> number" where
  \<comment> \<open>\<open>Math.round\<close>: the nearest integer, a tie going up\<close>
  "Math_round x = of_int \<lfloor>x + 1 / 2\<rfloor>"

definition orZero :: "number option \<Rightarrow> number" where
  \<comment> \<open>\<open>v || 0\<close> on an optional number: \<open>undefined\<close> and \<open>0\<close> are both falsy\<close>
  "orZero v = (case v of None \<Rightarrow> 0 | Some a \<Rightarrow> a)"

definition isInteger :: "number \<Rightarrow> bool" where
  "isInteger a = (of_int \<lfloor>a\<rfloor> = a)"

text \<open>
  Strings are lists of code units; the type \<open>char\<close> holds the code units below 256.
  On these, \<open>String.prototype.trim\<close> strips TAB, LF, VT, FF, CR, SP and NBSP, and
  \<open>toLowerCase\<close> maps A..Z and the upper-case letters of the Latin-1 block.
\<close>

definition isWhiteSpace :: "char \<Rightarrow> bool" where
  "isWhiteSpace c = (of_char c \<in> set [9, 10, 11, 12, 13, 32, 160 :: nat])"

definition trim :: "string \<Rightarrow> string" where
  "trim s = rev (dropWhile isWhiteSpace (rev (dropWhile isWhiteSpace s)))"

definition toLowerChar :: "char \<Rightarrow> char" where
  "toLowerChar c = (let n = of_char c :: nat in
     if (65 \<le> n \<and> n \<le> 90) \<or> (192 \<le> n \<and> n \<le> 222 \<and> n \<noteq> 215)
     then char_of (n + 32) else c)"

definition toLowerCase :: "string \<Rightarrow> string" where
  "toLowerCase s = map toLowerChar s"

definition join :: "string \<Rightarrow> string list \<Rightarrow> string" where
  \<comment> \<open>\<open>Array.prototype.join\<close> on an array of strings\<close>
  "join sep xs = (case xs of [] \<Rightarrow> [] | y # ys \<Rightarrow> y @ concat (map (\<lambda>s. sep @ s) ys))"

section \<open>Rollups\<close>

subsection \<open>Public partners page\<close>

record partner =
  partner_id :: string
  partner_name :: string
  partner_logo :: string
  partner_website :: "string option"
  partner_amount :: "number option"
  partner_project :: "string option"
  partner_note :: "string option"
  partner_date :: "string option"
  partner_featured :: "bool option"

definition contributingPartners :: "partner list \<Rightarrow> partner list" where
  \<comment> \<open>\<open>firestorePartners.filter(p => p.amount && p.amount > 0)\<close>\<close>
  "contributingPartners firestorePartners =
     filter (\<lambda>p. case partner_amount p of None \<Rightarrow> False | Some a \<Rightarrow> a \<noteq> 0 \<and> 0 < a)
       firestorePartners"

definition totalContributed :: "partner list \<Rightarrow> number" where
  \<comment> \<open>\<open>contributingPartners.reduce((sum, p) => sum + (p.amount || 0), 0)\<close>\<close>
  "totalContributed firestorePartners =
     foldl (\<lambda>sum p. fadd sum (orZero (partner_amount p))) 0
       (contributingPartners firestorePartners)"

definition contributingCount :: "partner list \<Rightarrow> nat" where
  "contributingCount firestorePartners = length (contributingPartners firestorePartners)"

subsection \<open>Ledger page\<close>

datatype txType = Income | Expense

record transaction =
  tx_id :: string
  tx_date :: string
  tx_type :: txType
  tx_category :: string
  tx_description :: string
  tx_amount :: number
  tx_project :: string
  tx_receipt :: "string option"
  tx_paymentMethod :: "string option"
  tx_donorEmail :: "string option"

record ledgerProject =
  lp_id :: string
  lp_title :: string
  lp_raised :: number
  lp_goal :: number
  lp_category :: string
  lp_isActive :: bool

record donationDoc =
  dn_amount :: "number option"
  dn_donorEmail :: "string option"
  dn_projectId :: "string option"
  dn_createdAt :: "string option"

definition orDefault :: "string option \<Rightarrow> string \<Rightarrow> string" where
  \<comment> \<open>\<open>s || d\<close> on an optional string: \<open>undefined\<close> and the empty string are falsy\<close>
  "orDefault s d = (case s of None \<Rightarrow> d | Some v \<Rightarrow> if v = [] then d else v)"

definition donationTransaction :: "string \<Rightarrow> string \<Rightarrow> donationDoc \<Rightarrow> transaction" where
  \<comment> \<open>the ledger line \<open>fetchData\<close> pushes for a document of the donations collection;
      \<open>dn_createdAt\<close> is the stored timestamp as an ISO string, \<open>now\<close> the current time\<close>
  "donationTransaction now docId data =
     \<lparr>tx_id = docId,
      tx_date = orDefault (dn_createdAt data) now,
      tx_type = Income,
      tx_category = ''donation'',
      tx_description = ''Donation from '' @ orDefault (dn_donorEmail data) ''Anonymous'',
      tx_amount = orZero (dn_amount data),
      tx_project = orDefault (dn_projectId data) ''General'',
      tx_receipt = None,
      tx_paymentMethod = Some ''Stripe'',
      tx_donorEmail = dn_donorEmail data\<rparr>"

definition totalIncome :: "transaction list \<Rightarrow> number" where
  "totalIncome transactions =
     foldl (\<lambda>sum t. fadd sum (tx_amount t)) 0 (filter (\<lambda>t. tx_type t = Income) transactions)"

definition totalExpenses :: "transaction list \<Rightarrow> number" where
  "totalExpenses transactions =
     foldl (\<lambda>sum t. fadd sum (tx_amount t)) 0 (filter (\<lambda>t. tx_type t = Expense) transactions)"

definition incomeCount :: "transaction list \<Rightarrow> nat" where
  "incomeCount transactions = length (filter (\<lambda>t. tx_type t = Income) transactions)"

definition expenseCount :: "transaction list \<Rightarrow> nat" where
  "expenseCount transactions = length (filter (\<lambda>t. tx_type t = Expense) transactions)"

definition ledgerLabel :: "ledgerProject \<Rightarrow> number" where
  \<comment> \<open>the figure printed before the percent sign, beside the bar\<close>
  "ledgerLabel project =
     (if 0 < lp_goal project
      then Math_round (fmul (fdiv (lp_raised project) (lp_goal project)) 100) else 0)"

definition ledgerBarWidth :: "ledgerProject \<Rightarrow> number" where
  "ledgerBarWidth project =
     (if 0 < lp_goal project
      then min (fmul (fdiv (lp_raised project) (lp_goal project)) 100) 100 else 0)"

subsection \<open>Dashboard projects page\<close>

definition progressPct :: "number option \<Rightarrow> number option \<Rightarrow> number" where
  \<comment> \<open>\<open>(raised = 0, goal = 1) => goal > 0 ? Math.min((raised / goal) * 100, 100) : 0\<close>;
      an absent argument takes its default\<close>
  "progressPct raised goal =
     (let r = (case raised of None \<Rightarrow> 0 | Some v \<Rightarrow> v);
          g = (case goal of None \<Rightarrow> 1 | Some v \<Rightarrow> v)
      in if 0 < g then min (fmul (fdiv r g) 100) 100 else 0)"

definition projectsLabel :: "number option \<Rightarrow> number \<Rightarrow> number" where
  \<comment> \<open>\<open>progressPct(project.raised, project.goal).toFixed(1)\<close>, before formatting\<close>
  "projectsLabel raised goal = progressPct raised (Some goal)"

definition projectsBarWidth :: "number option \<Rightarrow> number \<Rightarrow> number" where
  "projectsBarWidth raised goal = progressPct raised (Some goal)"

definition dashboardLabel :: "number option \<Rightarrow> number \<Rightarrow> number" where
  \<comment> \<open>\<open>app/dashboard/projects/page.tsx\<close>:
      \<open>project.goal > 0 ? ((project.raised || 0) / project.goal * 100).toFixed(1) : 0\<close>,
      before formatting\<close>
  "dashboardLabel raised goal =
     (if 0 < goal then fmul (fdiv (orZero raised) goal) 100 else 0)"

definition dashboardBarWidth :: "number option \<Rightarrow> number \<Rightarrow> number" where
  "dashboardBarWidth raised goal =
     (if 0 < goal then min (fmul (fdiv (orZero raised) goal) 100) 100 else 0)"

subsection \<open>Public giving-circle page\<close>

record expense =
  ex_id :: string
  ex_description :: string
  ex_amount :: number
  ex_date :: "string option"
  ex_note :: "string option"

record workspace =
  ws_id :: string
  ws_name :: string
  ws_logo :: "string option"
  ws_totalReceived :: number
  ws_date :: "string option"
  ws_note :: "string option"
  ws_expenses :: "expense list option"
  ws_updatedAt :: "int option"

definition totalSpent :: "workspace \<Rightarrow> number" where
  \<comment> \<open>\<open>(workspace.expenses || []).reduce((sum, e) => sum + (e.amount || 0), 0)\<close>\<close>
  "totalSpent w =
     foldl (\<lambda>sum e. fadd sum (orZero (Some (ex_amount e)))) 0
       (case ws_expenses w of None \<Rightarrow> [] | Some es \<Rightarrow> es)"

definition givingCircleLabel :: "workspace \<Rightarrow> number option" where
  \<comment> \<open>the progress block is rendered only when \<open>workspace.totalReceived > 0\<close>\<close>
  "givingCircleLabel w =
     (if 0 < ws_totalReceived w
      then Some (min (Math_round (fmul (fdiv (totalSpent w) (ws_totalReceived w)) 100)) 100)
      else None)"

definition givingCircleBarWidth :: "workspace \<Rightarrow> number option" where
  "givingCircleBarWidth w =
     (if 0 < ws_totalReceived w
      then Some (min (fmul (fdiv (totalSpent w) (ws_totalReceived w)) 100) 100)
      else None)"

subsection \<open>The figures in the words of the specification\<close>

definition unclampedPct :: "number \<Rightarrow> number \<Rightarrow> number" where
  \<comment> \<open>\<open>raised / goal * 100\<close>\<close>
  "unclampedPct raised goal = fmul (fdiv raised goal) 100"

definition displayPct :: "number \<Rightarrow> number \<Rightarrow> number" where
  \<comment> \<open>0 when \<open>goal \<le> 0\<close>, otherwise \<open>min(raised / goal * 100, 100)\<close>\<close>
  "displayPct raised goal = (if goal \<le> 0 then 0 else min (unclampedPct raised goal) 100)"

definition exactAmounts :: "number list \<Rightarrow> bool" where
  \<comment> \<open>whole amounts whose sums stay in the range where binary64 addition is exact\<close>
  "exactAmounts xs = (list_all isInteger xs \<and> sum_list (map abs xs) < 2 ^ 53)"

section \<open>Merging the founding partners with the live collection\<close>

definition FOUNDING_PARTNERS :: "partner list" where
  "FOUNDING_PARTNERS =
    [\<lparr>partner_id = ''grow-with-google'', partner_name = ''Grow with Google'',
      partner_logo = ''/grow-with-google-logo.png'', partner_website = Some ''https://grow.google'',
      partner_amount = None, partner_project = None, partner_note = None, partner_date = None,
      partner_featured = Some True\<rparr>,
     \<lparr>partner_id = ''goodstack'', partner_name = ''GoodStack'',
      partner_logo = ''/60.png'', partner_website = Some ''https://goodstack.org/'',
      partner_amount = None, partner_project = None, partner_note = None, partner_date = None,
      partner_featured = Some True\<rparr>,
     \<lparr>partner_id = ''techsoup'', partner_name = ''TechSoup'',
      partner_logo = ''/TechSoup-US-Logo.png'', partner_website = Some ''https://www.techsoup.org'',
      partner_amount = None, partner_project = None, partner_note = None, partner_date = None,
      partner_featured = Some True\<rparr>]"

definition foundingIds :: "partner list \<Rightarrow> string set" where
  \<comment> \<open>\<open>new Set(FOUNDING_PARTNERS.map(p => p.name.toLowerCase()))\<close>, for any seed list\<close>
  "foundingIds seed = set (map (\<lambda>p. toLowerCase (partner_name p)) seed)"

definition additionalPartners :: "partner list \<Rightarrow> partner list \<Rightarrow> partner list" where
  \<comment> \<open>\<open>firestorePartners.filter(p => !foundingIds.has(p.name.toLowerCase()))\<close>\<close>
  "additionalPartners seed firestorePartners =
     filter (\<lambda>p. toLowerCase (partner_name p) \<notin> foundingIds seed) firestorePartners"

definition displayPartners :: "partner list \<Rightarrow> partner list \<Rightarrow> partner list" where
  \<comment> \<open>the cards in the order the page renders them: the seed grid, then the additional grid\<close>
  "displayPartners seed firestorePartners = seed @ additionalPartners seed firestorePartners"

definition partnersPage :: "partner list \<Rightarrow> partner list" where
  "partnersPage firestorePartners = displayPartners FOUNDING_PARTNERS firestorePartners"

definition nameCollides :: "partner list \<Rightarrow> partner \<Rightarrow> bool" where
  \<comment> \<open>in the words of the specification: the lowercased name equals that of a seed entry\<close>
  "nameCollides seed p =
     list_ex (\<lambda>s. toLowerCase (partner_name s) = toLowerCase (partner_name p)) seed"

section \<open>Projects, sub-projects and completion data\<close>

record testimonial =
  t_name :: string
  t_text :: string
  t_role :: "string option"

record impactStats =
  is_peopleHelped :: "number option"
  is_itemsDistributed :: "number option"
  is_customMetric :: "string option"

record completionData =
  cd_completedDate :: "string option"
  cd_completionStory :: "string option"
  cd_beforeImages :: "string list option"
  cd_afterImages :: "string list option"
  cd_progressImages :: "string list option"
  cd_testimonials :: "testimonial list option"
  cd_impactStats :: "impactStats option"

record subProject =
  sp_id :: string
  sp_title :: string
  sp_description :: "string option"
  sp_communityName :: "string option"
  sp_goal :: number
  sp_raised :: number
  sp_isCompleted :: "bool option"
  sp_completionData :: "completionData option"
  sp_createdAt :: "string option"

text \<open>
  A document of the projects collection as a listener delivers it
  (\<open>{id: d.id, ...d.data()}\<close>). The time stamps are server times in milliseconds.
\<close>

record project =
  pj_id :: string
  pj_title :: string
  pj_subtitle :: "string option"
  pj_tagline :: "string option"
  pj_description :: string
  pj_callToAction :: "string option"
  pj_category :: string
  pj_goal :: number
  pj_raised :: "number option"
  pj_supporters :: "number option"
  pj_image :: "string option"
  pj_tag :: "string option"
  pj_isActive :: bool
  pj_isLive :: bool
  pj_isCompleted :: "bool option"
  pj_isParent :: "bool option"
  pj_subProjects :: "subProject list option"
  pj_completionData :: "completionData option"
  pj_createdAt :: "int option"
  pj_updatedAt :: "int option"

definition truthy :: "bool option \<Rightarrow> bool" where
  \<comment> \<open>an optional flag used as a condition: \<open>undefined\<close> is falsy\<close>
  "truthy b = (case b of None \<Rightarrow> False | Some v \<Rightarrow> v)"

section \<open>Completed projects page: flattening and sorting\<close>

record completedItem =
  ci_id :: string
  ci_title :: string
  ci_subtitle :: "string option"
  ci_description :: string
  ci_category :: string
  ci_goal :: number
  ci_raised :: "number option"
  ci_supporters :: "number option"
  ci_image :: "string option"
  ci_completionData :: "completionData option"
  ci_parentTitle :: "string option"
  ci_communityName :: "string option"
  ci_isSubProject :: "bool option"

definition topLevelItem :: "project \<Rightarrow> completedItem" where
  "topLevelItem data =
     \<lparr>ci_id = pj_id data, ci_title = pj_title data, ci_subtitle = pj_subtitle data,
      ci_description = pj_description data, ci_category = pj_category data,
      ci_goal = pj_goal data, ci_raised = pj_raised data, ci_supporters = pj_supporters data,
      ci_image = pj_image data, ci_completionData = pj_completionData data,
      ci_parentTitle = None, ci_communityName = None, ci_isSubProject = None\<rparr>"

definition subProjectItem :: "project \<Rightarrow> subProject \<Rightarrow> completedItem" where
  "subProjectItem data sub =
     \<lparr>ci_id = pj_id data @ ''_'' @ sp_id sub, ci_title = sp_title sub, ci_subtitle = None,
      ci_description = orDefault (sp_description sub) (pj_description data),
      ci_category = pj_category data, ci_goal = sp_goal sub, ci_raised = Some (sp_raised sub),
      ci_supporters = pj_supporters data, ci_image = pj_image data,
      ci_completionData = sp_completionData sub, ci_parentTitle = Some (pj_title data),
      ci_communityName = sp_communityName sub, ci_isSubProject = Some True\<rparr>"

definition pushProject :: "completedItem list \<Rightarrow> project \<Rightarrow> completedItem list" where
  \<comment> \<open>the body of \<open>snapshot.docs.forEach\<close>: \<open>items\<close> before, \<open>items\<close> after\<close>
  "pushProject items data =
     (let items1 = (if truthy (pj_isCompleted data) \<and> \<not> truthy (pj_isParent data)
                    then items @ [topLevelItem data] else items)
      in case pj_subProjects data of
           None \<Rightarrow> items1
         | Some subs \<Rightarrow>
             if truthy (pj_isParent data)
             then foldl (\<lambda>acc sub. acc @ [subProjectItem data sub]) items1
                    (filter (\<lambda>sub. truthy (sp_isCompleted sub)) subs)
             else items1)"

definition flattenProjects :: "project list \<Rightarrow> completedItem list" where
  "flattenProjects docs = foldl pushProject [] docs"

text \<open>
  \<open>new Date(s).getTime()\<close> is a function of the platform and a parameter here: the
  time of a date string in milliseconds since the epoch. The completion date comes from a
  date input, and the model covers the strings that parse (no NaN).
\<close>

definition dateOf :: "(string \<Rightarrow> int) \<Rightarrow> completedItem \<Rightarrow> int" where
  \<comment> \<open>\<open>a.completionData?.completedDate ? new Date(a.completionData.completedDate).getTime() : 0\<close>\<close>
  "dateOf getTime a =
     (case ci_completionData a of
        None \<Rightarrow> 0
      | Some cd \<Rightarrow> (case cd_completedDate cd of
                     None \<Rightarrow> 0
                   | Some d \<Rightarrow> if d = [] then 0 else getTime d))"

definition compareItems :: "(string \<Rightarrow> int) \<Rightarrow> completedItem \<Rightarrow> completedItem \<Rightarrow> int" where
  "compareItems getTime a b = dateOf getTime b - dateOf getTime a"

text \<open>
  \<open>Array.prototype.sort\<close> is a stable sort. For a comparator that is a consistent
  ordering its result is fixed by the language: the stable arrangement, which insertion
  from the right computes.
\<close>

fun insertSorted :: "('a \<Rightarrow> 'a \<Rightarrow> int) \<Rightarrow> 'a \<Rightarrow> 'a list \<Rightarrow> 'a list" where
  "insertSorted cmp x [] = [x]"
| "insertSorted cmp x (y # ys) =
     (if cmp x y \<le> 0 then x # y # ys else y # insertSorted cmp x ys)"

definition sortArray :: "('a \<Rightarrow> 'a \<Rightarrow> int) \<Rightarrow> 'a list \<Rightarrow> 'a list" where
  "sortArray cmp xs = foldr (insertSorted cmp) xs []"

definition completedItems :: "(string \<Rightarrow> int) \<Rightarrow> project list \<Rightarrow> completedItem list" where
  \<comment> \<open>what the snapshot callback passes to \<open>setCompletedItems\<close>\<close>
  "completedItems getTime docs = sortArray (compareItems getTime) (flattenProjects docs)"

definition completedDateOf :: "completedItem \<Rightarrow> string option" where
  \<comment> \<open>in the words of the specification: the completion date of an item, when it has one
      (an absent date and an empty one both count as missing)\<close>
  "completedDateOf a =
     (case ci_completionData a of
        None \<Rightarrow> None
      | Some cd \<Rightarrow> (case cd_completedDate cd of
                     None \<Rightarrow> None
                   | Some d \<Rightarrow> if d = [] then None else Some d))"

definition sortKey :: "(string \<Rightarrow> int) \<Rightarrow> completedItem \<Rightarrow> int" where
  \<comment> \<open>in the words of the specification: the time of the completion date, a missing date
      counting as the epoch\<close>
  "sortKey getTime a = (case completedDateOf a of None \<Rightarrow> 0 | Some d \<Rightarrow> getTime d)"

definition expectedItems :: "project \<Rightarrow> completedItem multiset" where
  \<comment> \<open>in the words of the specification: a completed non-parent project is one item; a
      parent contributes one item for each of its completed sub-projects\<close>
  "expectedItems p =
     (if truthy (pj_isParent p)
      then image_mset (subProjectItem p)
             (filter_mset (\<lambda>sub. truthy (sp_isCompleted sub))
                (mset (case pj_subProjects p of None \<Rightarrow> [] | Some subs \<Rightarrow> subs)))
      else if truthy (pj_isCompleted p) then {#topLevelItem p#} else {#})"

section \<open>The document store and the dashboard forms\<close>

text \<open>
  What a handler takes from outside: the server time a write is stamped with, the id the
  store gives a new document, the ids and the time the page generates, and the error of a
  write the store rejects (\<open>None\<close> when the store accepts it).
\<close>

record env =
  serverTimestamp :: int
  newDocId :: string
  generatedId :: string
  nowISO :: string
  writeError :: "string option"

definition updateDoc ::
    "env \<Rightarrow> (string \<rightharpoonup> 'd) \<Rightarrow> string \<Rightarrow> ('d \<Rightarrow> 'd) \<Rightarrow> string + (string \<rightharpoonup> 'd)" where
  \<comment> \<open>sets the given fields of an existing document; a missing document is an error\<close>
  "updateDoc e store key upd =
     (case writeError e of
        Some m \<Rightarrow> Inl m
      | None \<Rightarrow> (case store key of
                   None \<Rightarrow> Inl ''No document to update''
                 | Some d \<Rightarrow> Inr (store(key \<mapsto> upd d))))"

definition addDoc :: "env \<Rightarrow> (string \<rightharpoonup> 'd) \<Rightarrow> (string \<Rightarrow> 'd) \<Rightarrow> string + (string \<rightharpoonup> 'd)" where
  "addDoc e store mk =
     (case writeError e of
        Some m \<Rightarrow> Inl m
      | None \<Rightarrow> Inr (store(newDocId e \<mapsto> mk (newDocId e))))"

record projectForm =
  pf_title :: string
  pf_subtitle :: string
  pf_tagline :: string
  pf_description :: string
  pf_callToAction :: string
  pf_category :: string
  pf_goal :: number
  pf_raised :: number
  pf_supporters :: number
  pf_image :: string
  pf_tag :: string
  pf_isActive :: bool
  pf_isLive :: bool
  pf_isCompleted :: bool
  pf_isParent :: bool

record subProjectForm =
  sf_title :: string
  sf_description :: string
  sf_communityName :: string
  sf_goal :: number
  sf_raised :: number

record completionForm =
  cf_completedDate :: string
  cf_completionStory :: string
  cf_beforeImages :: "string list"
  cf_afterImages :: "string list"
  cf_progressImages :: "string list"
  cf_testimonials :: "testimonial list"
  cf_impactStats :: impactStats

text \<open>
  The state of the dashboard projects page together with the projects collection it writes
  to. \<open>alerts\<close> are the messages of the blocking alerts raised so far.
\<close>

record projectsPage =
  db :: "string \<rightharpoonup> project"
  alerts :: "string list"
  saving :: bool
  showModal :: bool
  editingProject :: "project option"
  formData :: projectForm
  showSubModal :: bool
  subModalParent :: "project option"
  editingSubProject :: "subProject option"
  subFormData :: subProjectForm
  showCompletionModal :: bool
  completingProject :: "project option"
  completingSubProject :: "subProject option"
  completionFormData :: completionForm

definition alert :: "string \<Rightarrow> projectsPage \<Rightarrow> projectsPage" where
  "alert msg st = st\<lparr>alerts := alerts st @ [msg]\<rparr>"

subsection \<open>Completion data\<close>

definition buildCleanCompletionData :: "completionForm \<Rightarrow> completionData" where
  \<comment> \<open>a string is truthy when it is not empty\<close>
  "buildCleanCompletionData f =
     \<lparr>cd_completedDate = Some (cf_completedDate f),
      cd_completionStory = Some (cf_completionStory f),
      cd_beforeImages = Some (filter (\<lambda>u. trim u \<noteq> []) (cf_beforeImages f)),
      cd_afterImages = Some (filter (\<lambda>u. trim u \<noteq> []) (cf_afterImages f)),
      cd_progressImages = Some (filter (\<lambda>u. trim u \<noteq> []) (cf_progressImages f)),
      cd_testimonials =
        Some (filter (\<lambda>t. trim (t_name t) \<noteq> [] \<and> trim (t_text t) \<noteq> []) (cf_testimonials f)),
      cd_impactStats = Some (cf_impactStats f)\<rparr>"

definition cleanCompletionData :: "completionForm \<Rightarrow> completionData" where
  \<comment> \<open>the payload \<open>handleCompletionSubmit\<close> of \<open>app/dashboard/projects/page.tsx\<close> builds,
      with \<open>url.trim() !== ''\<close> as the test\<close>
  "cleanCompletionData f =
     \<lparr>cd_completedDate = Some (cf_completedDate f),
      cd_completionStory = Some (cf_completionStory f),
      cd_beforeImages = Some (filter (\<lambda>url. trim url \<noteq> []) (cf_beforeImages f)),
      cd_afterImages = Some (filter (\<lambda>url. trim url \<noteq> []) (cf_afterImages f)),
      cd_progressImages = Some (filter (\<lambda>url. trim url \<noteq> []) (cf_progressImages f)),
      cd_testimonials =
        Some (filter (\<lambda>t. trim (t_name t) \<noteq> [] \<and> trim (t_text t) \<noteq> []) (cf_testimonials f)),
      cd_impactStats = Some (cf_impactStats f)\<rparr>"

definition isBlank :: "string \<Rightarrow> bool" where
  \<comment> \<open>in the words of the specification: empty, or white space only\<close>
  "isBlank u = list_all isWhiteSpace u"

subsection \<open>Project form\<close>

definition spreadFormData :: "projectForm \<Rightarrow> project \<Rightarrow> project" where
  \<comment> \<open>\<open>...formData\<close> in a write: the fifteen fields of the form\<close>
  "spreadFormData f d =
     d\<lparr>pj_title := pf_title f, pj_subtitle := Some (pf_subtitle f),
       pj_tagline := Some (pf_tagline f), pj_description := pf_description f,
       pj_callToAction := Some (pf_callToAction f), pj_category := pf_category f,
       pj_goal := pf_goal f, pj_raised := Some (pf_raised f),
       pj_supporters := Some (pf_supporters f), pj_image := Some (pf_image f),
       pj_tag := Some (pf_tag f), pj_isActive := pf_isActive f, pj_isLive := pf_isLive f,
       pj_isCompleted := Some (pf_isCompleted f), pj_isParent := Some (pf_isParent f)\<rparr>"

definition emptyProject :: "string \<Rightarrow> project" where
  \<comment> \<open>a document with no field set yet, under the given id\<close>
  "emptyProject docId =
     \<lparr>pj_id = docId, pj_title = [], pj_subtitle = None, pj_tagline = None,
      pj_description = [], pj_callToAction = None, pj_category = [], pj_goal = 0,
      pj_raised = None, pj_supporters = None, pj_image = None, pj_tag = None,
      pj_isActive = False, pj_isLive = False, pj_isCompleted = None, pj_isParent = None,
      pj_subProjects = None, pj_completionData = None, pj_createdAt = None,
      pj_updatedAt = None\<rparr>"

definition handleProjectSubmit :: "env \<Rightarrow> projectsPage \<Rightarrow> projectsPage" where
  "handleProjectSubmit e st =
     (let f = formData st in
      if pf_title f = [] \<or> pf_description f = [] \<or> pf_goal f \<le> 0
      then alert ''Please fill in all required fields'' st
      else
        (case (case editingProject st of
                 Some ep \<Rightarrow>
                   updateDoc e (db st) (pj_id ep)
                     (\<lambda>d. (spreadFormData f d)\<lparr>pj_updatedAt := Some (serverTimestamp e)\<rparr>)
               | None \<Rightarrow>
                   addDoc e (db st)
                     (\<lambda>docId. (spreadFormData f (emptyProject docId))
                        \<lparr>pj_subProjects := Some [], pj_isCompleted := Some False,
                         pj_createdAt := Some (serverTimestamp e),
                         pj_updatedAt := Some (serverTimestamp e)\<rparr>)) of
           Inr db' \<Rightarrow> st\<lparr>db := db', showModal := False, editingProject := None, saving := False\<rparr>
         | Inl m \<Rightarrow> (alert (''Failed to save: '' @ m) st)\<lparr>saving := False\<rparr>))"

function replaceWhitespaceRuns :: "string \<Rightarrow> string" where
  "replaceWhitespaceRuns [] = []"
| "replaceWhitespaceRuns (c # cs) =
     (if isWhiteSpace c then CHR ''-'' # replaceWhitespaceRuns (dropWhile isWhiteSpace cs)
      else c # replaceWhitespaceRuns cs)"
  by pat_completeness auto
termination
  by (relation "measure length") (auto simp: length_dropWhile_le less_Suc_eq_le)

definition handleSubmit :: "env \<Rightarrow> projectsPage \<Rightarrow> projectsPage" where
  \<comment> \<open>the project form of \<open>app/dashboard/projects/page.tsx\<close>; that page has no \<open>isParent\<close>
      and no sub-projects, and stores an \<open>id\<close> field of its own in a new document\<close>
  "handleSubmit e st =
     (let f = formData st in
      if pf_title f = [] \<or> pf_description f = [] \<or> pf_goal f \<le> 0
      then alert ''Please fill in all required fields (Title, Description, Goal)'' st
      else
        (case (case editingProject st of
                 Some ep \<Rightarrow>
                   updateDoc e (db st) (pj_id ep)
                     (\<lambda>d. (spreadFormData f d)
                        \<lparr>pj_isParent := pj_isParent d, pj_updatedAt := Some (serverTimestamp e)\<rparr>)
               | None \<Rightarrow>
                   addDoc e (db st)
                     (\<lambda>docId. (spreadFormData f (emptyProject docId))
                        \<lparr>pj_isParent := None,
                         pj_id := replaceWhitespaceRuns (toLowerCase (pf_title f)),
                         pj_createdAt := Some (serverTimestamp e),
                         pj_updatedAt := Some (serverTimestamp e)\<rparr>)) of
           Inr db' \<Rightarrow> st\<lparr>db := db', showModal := False, editingProject := None, saving := False\<rparr>
         | Inl m \<Rightarrow> (alert (''Failed to save project: '' @ m) st)\<lparr>saving := False\<rparr>))"

subsection \<open>Sub-project form\<close>

definition spreadSubFormData :: "subProjectForm \<Rightarrow> subProject \<Rightarrow> subProject" where
  "spreadSubFormData f s =
     s\<lparr>sp_title := sf_title f, sp_description := Some (sf_description f),
       sp_communityName := Some (sf_communityName f), sp_goal := sf_goal f,
       sp_raised := sf_raised f\<rparr>"

definition subProjectsOf :: "project \<Rightarrow> subProject list" where
  \<comment> \<open>\<open>parent.subProjects || []\<close>\<close>
  "subProjectsOf parent = (case pj_subProjects parent of None \<Rightarrow> [] | Some subs \<Rightarrow> subs)"

definition editedSubProjects ::
    "subProjectForm \<Rightarrow> subProject \<Rightarrow> subProject list \<Rightarrow> subProject list" where
  "editedSubProjects f editing currentSubs =
     map (\<lambda>s. if sp_id s = sp_id editing then spreadSubFormData f s else s) currentSubs"

definition newSubProject :: "env \<Rightarrow> subProjectForm \<Rightarrow> subProject" where
  "newSubProject e f =
     \<lparr>sp_id = generatedId e, sp_title = sf_title f, sp_description = Some (sf_description f),
      sp_communityName = Some (sf_communityName f), sp_goal = sf_goal f,
      sp_raised = sf_raised f, sp_isCompleted = Some False, sp_completionData = None,
      sp_createdAt = Some (nowISO e)\<rparr>"

definition handleSubProjectSubmit :: "env \<Rightarrow> projectsPage \<Rightarrow> projectsPage" where
  "handleSubProjectSubmit e st =
     (case subModalParent st of
        None \<Rightarrow> alert ''Please fill in Title and Goal'' st
      | Some parent \<Rightarrow>
          let f = subFormData st in
          if sf_title f = [] \<or> sf_goal f \<le> 0 then alert ''Please fill in Title and Goal'' st
          else
            let currentSubs = subProjectsOf parent;
                updatedSubs = (case editingSubProject st of
                                 Some editing \<Rightarrow> editedSubProjects f editing currentSubs
                               | None \<Rightarrow> currentSubs @ [newSubProject e f])
            in case updateDoc e (db st) (pj_id parent)
                      (\<lambda>d. d\<lparr>pj_subProjects := Some updatedSubs,
                               pj_updatedAt := Some (serverTimestamp e)\<rparr>) of
                 Inr db' \<Rightarrow> st\<lparr>db := db', showSubModal := False, subModalParent := None,
                                editingSubProject := None, saving := False\<rparr>
               | Inl m \<Rightarrow> (alert (''Failed to save community: '' @ m) st)\<lparr>saving := False\<rparr>)"

subsection \<open>Marking as completed\<close>

definition completedSubProjects ::
    "completionData \<Rightarrow> subProject \<Rightarrow> subProject list \<Rightarrow> subProject list" where
  "completedSubProjects cleanData completing subs =
     map (\<lambda>s. if sp_id s = sp_id completing
               then s\<lparr>sp_isCompleted := Some True, sp_completionData := Some cleanData\<rparr>
               else s) subs"

definition handleCompletionSubmit :: "env \<Rightarrow> projectsPage \<Rightarrow> projectsPage" where
  "handleCompletionSubmit e st =
     (case completingProject st of
        None \<Rightarrow> st
      | Some cp \<Rightarrow>
          let cleanData = buildCleanCompletionData (completionFormData st) in
          case (case completingSubProject st of
                  Some cs \<Rightarrow>
                    updateDoc e (db st) (pj_id cp)
                      (\<lambda>d. d\<lparr>pj_subProjects :=
                                 Some (completedSubProjects cleanData cs (subProjectsOf cp)),
                               pj_updatedAt := Some (serverTimestamp e)\<rparr>)
                | None \<Rightarrow>
                    updateDoc e (db st) (pj_id cp)
                      (\<lambda>d. d\<lparr>pj_isCompleted := Some True, pj_completionData := Some cleanData,
                               pj_updatedAt := Some (serverTimestamp e)\<rparr>)) of
            Inr db' \<Rightarrow>
              (alert ''Marked as completed successfully!''
                 (st\<lparr>db := db', showCompletionModal := False, completingProject := None,
                      completingSubProject := None\<rparr>))\<lparr>saving := False\<rparr>
          | Inl m \<Rightarrow> (alert (''Failed: '' @ m) st)\<lparr>saving := False\<rparr>)"

definition handleCompletionSubmit_page :: "env \<Rightarrow> projectsPage \<Rightarrow> projectsPage" where
  \<comment> \<open>\<open>handleCompletionSubmit\<close> of \<open>app/dashboard/projects/page.tsx\<close>\<close>
  "handleCompletionSubmit_page e st =
     (case completingProject st of
        None \<Rightarrow> st
      | Some cp \<Rightarrow>
          case updateDoc e (db st) (pj_id cp)
                 (\<lambda>d. d\<lparr>pj_isCompleted := Some True,
                          pj_completionData := Some (cleanCompletionData (completionFormData st)),
                          pj_updatedAt := Some (serverTimestamp e)\<rparr>) of
            Inr db' \<Rightarrow>
              (alert ''Project marked as completed successfully!''
                 (st\<lparr>db := db', showCompletionModal := False, completingProject := None\<rparr>))
                 \<lparr>saving := False\<rparr>
          | Inl m \<Rightarrow> (alert (''Failed to complete project: '' @ m) st)\<lparr>saving := False\<rparr>)"

section \<open>Dashboard giving-circle page: the expenses of a workspace\<close>

record expenseForm =
  ef_description :: string
  ef_amount :: number
  ef_date :: string
  ef_note :: string

record givingCirclePage =
  gc_db :: "string \<rightharpoonup> workspace"
  gc_alerts :: "string list"
  gc_saving :: bool
  gc_deleting :: bool
  gc_showExpenseModal :: bool
  gc_expenseParent :: "workspace option"
  gc_editingExpense :: "expense option"
  gc_expenseForm :: expenseForm
  gc_showDeleteExpense :: bool
  gc_deletingExpense :: "(expense \<times> workspace) option"

definition spreadExpenseForm :: "expenseForm \<Rightarrow> expense \<Rightarrow> expense" where
  \<comment> \<open>\<open>{...ex, ...expenseForm, amount: Number(expenseForm.amount)}\<close>\<close>
  "spreadExpenseForm f ex =
     ex\<lparr>ex_description := ef_description f, ex_amount := ef_amount f,
        ex_date := Some (ef_date f), ex_note := Some (ef_note f)\<rparr>"

definition editedExpenses :: "expenseForm \<Rightarrow> expense \<Rightarrow> expense list \<Rightarrow> expense list" where
  "editedExpenses f editing current =
     map (\<lambda>ex. if ex_id ex = ex_id editing then spreadExpenseForm f ex else ex) current"

definition newExpense :: "env \<Rightarrow> expenseForm \<Rightarrow> expense" where
  "newExpense e f =
     \<lparr>ex_id = generatedId e, ex_description = ef_description f, ex_amount = ef_amount f,
      ex_date = Some (ef_date f), ex_note = Some (ef_note f)\<rparr>"

definition expensesOf :: "workspace \<Rightarrow> expense list" where
  \<comment> \<open>\<open>workspace.expenses || []\<close>\<close>
  "expensesOf w = (case ws_expenses w of None \<Rightarrow> [] | Some es \<Rightarrow> es)"

definition adminGivingCircleLabel :: "workspace \<Rightarrow> number option" where
  \<comment> \<open>the progress summary is rendered when
      \<open>workspace.totalReceived > 0 && expenses.length > 0\<close>\<close>
  "adminGivingCircleLabel w =
     (if 0 < ws_totalReceived w \<and> expensesOf w \<noteq> []
      then Some (Math_round (fmul (fdiv (totalSpent w) (ws_totalReceived w)) 100))
      else None)"

definition adminGivingCircleBarWidth :: "workspace \<Rightarrow> number option" where
  "adminGivingCircleBarWidth w =
     (if 0 < ws_totalReceived w \<and> expensesOf w \<noteq> []
      then Some (min (fmul (fdiv (totalSpent w) (ws_totalReceived w)) 100) 100)
      else None)"

definition handleExpenseSubmit :: "env \<Rightarrow> givingCirclePage \<Rightarrow> givingCirclePage" where
  "handleExpenseSubmit e st =
     (case gc_expenseParent st of
        None \<Rightarrow> st
      | Some parent \<Rightarrow>
          let f = gc_expenseForm st in
          if ef_description f = [] then st
          else
            let current = expensesOf parent;
                updated = (case gc_editingExpense st of
                             Some editing \<Rightarrow> editedExpenses f editing current
                           | None \<Rightarrow> current @ [newExpense e f])
            in case updateDoc e (gc_db st) (ws_id parent)
                      (\<lambda>d. d\<lparr>ws_expenses := Some updated,
                               ws_updatedAt := Some (serverTimestamp e)\<rparr>) of
                 Inr db' \<Rightarrow> st\<lparr>gc_db := db', gc_showExpenseModal := False, gc_saving := False\<rparr>
               | Inl m \<Rightarrow> st\<lparr>gc_alerts := gc_alerts st @ [''Failed: '' @ m], gc_saving := False\<rparr>)"

definition remainingExpenses :: "expense \<Rightarrow> expense list \<Rightarrow> expense list" where
  \<comment> \<open>\<open>expenses.filter(e => e.id !== deletingExpense.expense.id)\<close>\<close>
  "remainingExpenses deleted es = filter (\<lambda>ex. ex_id ex \<noteq> ex_id deleted) es"

definition handleDeleteExpense :: "env \<Rightarrow> givingCirclePage \<Rightarrow> givingCirclePage" where
  \<comment> \<open>the expenses are read without a default: on a workspace without the field the
      call of \<open>filter\<close> throws inside the \<open>try\<close>\<close>
  "handleDeleteExpense e st =
     (case gc_deletingExpense st of
        None \<Rightarrow> st
      | Some (deleted, w) \<Rightarrow>
          (case ws_expenses w of
             None \<Rightarrow>
               st\<lparr>gc_alerts := gc_alerts st
                      @ [''Failed: Cannot read properties of undefined (reading 'filter')''],
                  gc_deleting := False\<rparr>
           | Some es \<Rightarrow>
               (case updateDoc e (gc_db st) (ws_id w)
                       (\<lambda>d. d\<lparr>ws_expenses := Some (remainingExpenses deleted es),
                                ws_updatedAt := Some (serverTimestamp e)\<rparr>) of
                  Inr db' \<Rightarrow> st\<lparr>gc_db := db', gc_showDeleteExpense := False,
                                 gc_deletingExpense := None, gc_deleting := False\<rparr>
                | Inl m \<Rightarrow> st\<lparr>gc_alerts := gc_alerts st @ [''Failed: '' @ m],
                                gc_deleting := False\<rparr>)))"

definition unchangedElsewhere :: "('a \<Rightarrow> string) \<Rightarrow> string \<Rightarrow> 'a list \<Rightarrow> 'a list \<Rightarrow> bool" where
  \<comment> \<open>the written array has the original's length and, at every place whose element is
      not the targeted one, the original's element\<close>
  "unchangedElsewhere ident target original written =
     list_all2 (\<lambda>x y. ident x \<noteq> target \<longrightarrow> y = x) original written"

definition othersOf :: "('a \<Rightarrow> string) \<Rightarrow> string \<Rightarrow> 'a list \<Rightarrow> 'a list" where
  \<comment> \<open>the elements of an embedded array other than the targeted one, in their order\<close>
  "othersOf ident target xs = filter (\<lambda>x. ident x \<noteq> target) xs"

section \<open>Ledger page: export\<close>

text \<open>
  Two functions of the platform are parameters: \<open>toLocaleDateString\<close> (the date of a
  ledger line in the browser's locale) and \<open>numberToString\<close> (a number in a template
  string).
\<close>

definition typeName :: "txType \<Rightarrow> string" where
  "typeName t = (case t of Income \<Rightarrow> ''income'' | Expense \<Rightarrow> ''expense'')"

definition headers :: "string list" where
  "headers = [''Date'', ''Type'', ''Description'', ''Project'', ''Amount'', ''Category'',
     ''Receipt/Payment'']"

definition csvData ::
    "(string \<Rightarrow> string) \<Rightarrow> (number \<Rightarrow> string) \<Rightarrow> transaction list \<Rightarrow> string list list" where
  "csvData toLocaleDateString numberToString transactions =
     map (\<lambda>t. [toLocaleDateString (tx_date t), typeName (tx_type t), tx_description t,
                tx_project t, numberToString (tx_amount t), tx_category t,
                orDefault (tx_receipt t) (orDefault (tx_paymentMethod t) [])])
       transactions"

definition quoteCell :: "string \<Rightarrow> string" where
  "quoteCell cell = [CHR 0x22] @ cell @ [CHR 0x22]"

definition csvContent ::
    "(string \<Rightarrow> string) \<Rightarrow> (number \<Rightarrow> string) \<Rightarrow> transaction list \<Rightarrow> string" where
  "csvContent toLocaleDateString numberToString transactions =
     join [CHR 0x0A]
       (join '','' headers
        # map (\<lambda>row. join '','' (map quoteCell row))
            (csvData toLocaleDateString numberToString transactions))"

definition download :: "string \<Rightarrow> string" where
  \<comment> \<open>\<open>ledger-${new Date().toISOString().split('T')[0]}.csv\<close>\<close>
  "download now = ''ledger-'' @ takeWhile (\<lambda>c. c \<noteq> CHR ''T'') now @ ''.csv''"

definition exportToCSV ::
    "(string \<Rightarrow> string) \<Rightarrow> (number \<Rightarrow> string) \<Rightarrow> string \<Rightarrow> transaction list \<Rightarrow> string \<times> string" where
  \<comment> \<open>the name and the content of the file the click downloads\<close>
  "exportToCSV toLocaleDateString numberToString now transactions =
     (download now, csvContent toLocaleDateString numberToString transactions)"

definition quotedLine :: "(string \<Rightarrow> string) \<Rightarrow> (number \<Rightarrow> string) \<Rightarrow> transaction \<Rightarrow> string" where
  \<comment> \<open>in the words of the specification: the seven fields of a transaction, each wrapped
      in double quotes, with commas between them\<close>
  "quotedLine toLocaleDateString numberToString t =
     concat
       [[CHR 0x22], toLocaleDateString (tx_date t), [CHR 0x22], '','',
        [CHR 0x22], typeName (tx_type t), [CHR 0x22], '','',
        [CHR 0x22], tx_description t, [CHR 0x22], '','',
        [CHR 0x22], tx_project t, [CHR 0x22], '','',
        [CHR 0x22], numberToString (tx_amount t), [CHR 0x22], '','',
        [CHR 0x22], tx_category t, [CHR 0x22], '','',
        [CHR 0x22], orDefault (tx_receipt t) (orDefault (tx_paymentMethod t) []), [CHR 0x22]]"

section \<open>What a collection holds after a write\<close>

definition persistedCompletionData :: "projectsPage \<Rightarrow> string \<Rightarrow> completionData option" where
  \<comment> \<open>the completion data of a stored project, if the document and the field exist\<close>
  "persistedCompletionData st key =
     (case db st key of None \<Rightarrow> None | Some d \<Rightarrow> pj_completionData d)"

definition persistedSubProjects :: "projectsPage \<Rightarrow> string \<Rightarrow> subProject list option" where
  "persistedSubProjects st key =
     (case db st key of None \<Rightarrow> None | Some d \<Rightarrow> pj_subProjects d)"

definition persistedExpenses :: "givingCirclePage \<Rightarrow> string \<Rightarrow> expense list option" where
  "persistedExpenses st key =
     (case gc_db st key of None \<Rightarrow> None | Some d \<Rightarrow> ws_expenses d)"

section \<open>Sample records\<close>

definition donationOf :: "number \<Rightarrow> donationDoc" where
  \<comment> \<open>the donation document \<open>{amount: a}\<close>\<close>
  "donationOf a =
     \<lparr>dn_amount = Some a, dn_donorEmail = None, dn_projectId = None, dn_createdAt = None\<rparr>"

definition ledgerLine :: "number \<Rightarrow> transaction" where
  "ledgerLine a = donationTransaction ''2024-05-01T09:30:00.000Z'' ''d1'' (donationOf a)"

definition partnerOf :: "string \<Rightarrow> number option \<Rightarrow> partner" where
  "partnerOf n a =
     \<lparr>partner_id = n, partner_name = n, partner_logo = [], partner_website = None,
      partner_amount = a, partner_project = None, partner_note = None, partner_date = None,
      partner_featured = None\<rparr>"

definition sampleLedgerProject :: "number \<Rightarrow> number \<Rightarrow> ledgerProject" where
  "sampleLedgerProject raised goal =
     \<lparr>lp_id = ''p1'', lp_title = ''Clean Water'', lp_raised = raised, lp_goal = goal,
      lp_category = ''water'', lp_isActive = True\<rparr>"

definition sampleWorkspace :: "number \<Rightarrow> number list \<Rightarrow> workspace" where
  "sampleWorkspace received spent =
     \<lparr>ws_id = ''w1'', ws_name = ''Acme'', ws_logo = None, ws_totalReceived = received,
      ws_date = None, ws_note = None,
      ws_expenses = Some (map (\<lambda>a. \<lparr>ex_id = ''e'', ex_description = ''Pump'', ex_amount = a,
        ex_date = None, ex_note = None\<rparr>) spent),
      ws_updatedAt = None\<rparr>"

definition sampleGetTime :: "string \<Rightarrow> int" where
  \<comment> \<open>the times of the dates the samples use\<close>
  "sampleGetTime d =
     (if d = ''2024-01-01'' then 1704067200000
      else if d = ''2023-06-15'' then 1686787200000 else 0)"

definition noCompletionData :: completionData where
  "noCompletionData =
     \<lparr>cd_completedDate = None, cd_completionStory = None, cd_beforeImages = None,
      cd_afterImages = None, cd_progressImages = None, cd_testimonials = None,
      cd_impactStats = None\<rparr>"

definition wellA :: subProject where
  "wellA =
     \<lparr>sp_id = ''sub_a'', sp_title = ''Well A'', sp_description = None,
      sp_communityName = Some ''Kano'', sp_goal = 5000, sp_raised = 5000,
      sp_isCompleted = Some True,
      sp_completionData = Some (noCompletionData\<lparr>cd_completedDate := Some ''2024-01-01''\<rparr>),
      sp_createdAt = None\<rparr>"

definition wellB :: subProject where
  "wellB =
     \<lparr>sp_id = ''sub_b'', sp_title = ''Well B'', sp_description = None,
      sp_communityName = Some ''Jos'', sp_goal = 4000, sp_raised = 1200,
      sp_isCompleted = Some False, sp_completionData = None, sp_createdAt = None\<rparr>"

definition waterProgram :: project where
  "waterProgram =
     \<lparr>pj_id = ''p1'', pj_title = ''Water Program'', pj_subtitle = None, pj_tagline = None,
      pj_description = ''Wells for villages'', pj_callToAction = None, pj_category = ''water'',
      pj_goal = 9000, pj_raised = Some 6200, pj_supporters = Some 42, pj_image = None,
      pj_tag = None, pj_isActive = True, pj_isLive = True, pj_isCompleted = None,
      pj_isParent = Some True, pj_subProjects = Some [wellA, wellB],
      pj_completionData = None, pj_createdAt = None, pj_updatedAt = None\<rparr>"

definition schoolProject :: project where
  \<comment> \<open>a completed project that is no parent and carries no completion date\<close>
  "schoolProject =
     \<lparr>pj_id = ''p2'', pj_title = ''School Roof'', pj_subtitle = None, pj_tagline = None,
      pj_description = ''A new roof'', pj_callToAction = None, pj_category = ''education'',
      pj_goal = 3000, pj_raised = Some 3000, pj_supporters = Some 7, pj_image = None,
      pj_tag = None, pj_isActive = False, pj_isLive = False, pj_isCompleted = Some True,
      pj_isParent = None, pj_subProjects = None,
      pj_completionData = None, pj_createdAt = None, pj_updatedAt = None\<rparr>"

definition clinicProject :: project where
  \<comment> \<open>a completed project that is no parent, completed on 15 June 2023\<close>
  "clinicProject =
     \<lparr>pj_id = ''p3'', pj_title = ''Clinic Beds'', pj_subtitle = None, pj_tagline = None,
      pj_description = ''Twelve beds'', pj_callToAction = None, pj_category = ''health'',
      pj_goal = 2000, pj_raised = Some 2100, pj_supporters = Some 19, pj_image = None,
      pj_tag = None, pj_isActive = False, pj_isLive = False, pj_isCompleted = Some True,
      pj_isParent = Some False, pj_subProjects = None,
      pj_completionData = Some (noCompletionData\<lparr>cd_completedDate := Some ''2023-06-15''\<rparr>),
      pj_createdAt = None, pj_updatedAt = None\<rparr>"

definition sampleEnv :: env where
  "sampleEnv =
     \<lparr>serverTimestamp = 1717200000000, newDocId = ''doc9'', generatedId = ''sub_1717_ab12c'',
      nowISO = ''2024-06-01T00:00:00.000Z'', writeError = None\<rparr>"

definition sampleProjectForm :: projectForm where
  "sampleProjectForm =
     \<lparr>pf_title = ''School Roof'', pf_subtitle = [], pf_tagline = [],
      pf_description = ''A new roof'', pf_callToAction = [], pf_category = ''education'',
      pf_goal = 3000, pf_raised = 0, pf_supporters = 0, pf_image = [], pf_tag = [],
      pf_isActive = True, pf_isLive = False, pf_isCompleted = False, pf_isParent = False\<rparr>"

definition sampleSubForm :: subProjectForm where
  "sampleSubForm =
     \<lparr>sf_title = ''Well B (deep)'', sf_description = [], sf_communityName = ''Jos'',
      sf_goal = 4500, sf_raised = 1200\<rparr>"

definition sampleCompletionForm :: completionForm where
  "sampleCompletionForm =
     \<lparr>cf_completedDate = ''2024-01-01'', cf_completionStory = ''Done'',
      cf_beforeImages = ['''', ''http://x/1.jpg'', ''''],
      cf_afterImages = [''  '', ''http://x/2.jpg''],
      cf_progressImages = [''''],
      cf_testimonials =
        [\<lparr>t_name = ''Amina'', t_text = '''', t_role = Some ''''\<rparr>,
         \<lparr>t_name = ''Bello'', t_text = ''Clean water at last'', t_role = Some ''Elder''\<rparr>,
         \<lparr>t_name = '''', t_text = '''', t_role = Some ''''\<rparr>],
      cf_impactStats =
        \<lparr>is_peopleHelped = Some 300, is_itemsDistributed = Some 0,
         is_customMetric = Some ''''\<rparr>\<rparr>"

definition samplePage :: projectsPage where
  \<comment> \<open>the page over a collection of two projects, with the modals that are open\<close>
  "samplePage =
     \<lparr>db = [''p1'' \<mapsto> waterProgram, ''p2'' \<mapsto> schoolProject], alerts = [], saving = False,
      showModal = True, editingProject = Some schoolProject, formData = sampleProjectForm,
      showSubModal = True, subModalParent = Some waterProgram, editingSubProject = Some wellB,
      subFormData = sampleSubForm,
      showCompletionModal = True, completingProject = Some schoolProject,
      completingSubProject = None, completionFormData = sampleCompletionForm\<rparr>"

definition pumpExpense :: expense where
  "pumpExpense =
     \<lparr>ex_id = ''exp_1'', ex_description = ''Pump'', ex_amount = 400, ex_date = None,
      ex_note = None\<rparr>"

definition pipeExpense :: expense where
  "pipeExpense =
     \<lparr>ex_id = ''exp_2'', ex_description = ''Pipes'', ex_amount = 150,
      ex_date = Some ''2024-02-01'', ex_note = None\<rparr>"

definition tankExpense :: expense where
  "tankExpense =
     \<lparr>ex_id = ''exp_3'', ex_description = ''Tank'', ex_amount = 250, ex_date = None,
      ex_note = Some ''second hand''\<rparr>"

definition acmeWorkspace :: workspace where
  "acmeWorkspace =
     \<lparr>ws_id = ''w1'', ws_name = ''Acme'', ws_logo = None, ws_totalReceived = 1000,
      ws_date = None, ws_note = None,
      ws_expenses = Some [pumpExpense, pipeExpense, tankExpense], ws_updatedAt = None\<rparr>"

definition sampleGivingCirclePage :: givingCirclePage where
  \<comment> \<open>the expense Pipes is open in the edit form and chosen in the delete dialog\<close>
  "sampleGivingCirclePage =
     \<lparr>gc_db = [''w1'' \<mapsto> acmeWorkspace], gc_alerts = [], gc_saving = False,
      gc_deleting = False, gc_showExpenseModal = True, gc_expenseParent = Some acmeWorkspace,
      gc_editingExpense = Some pipeExpense,
      gc_expenseForm =
        \<lparr>ef_description = ''Pipes and joints'', ef_amount = 175, ef_date = ''2024-02-01'',
         ef_note = []\<rparr>,
      gc_showDeleteExpense = True, gc_deletingExpense = Some (pipeExpense, acmeWorkspace)\<rparr>"

definition sampleDateString :: "string \<Rightarrow> string" where
  \<comment> \<open>a locale that prints the date part of an ISO time\<close>
  "sampleDateString d = take 10 d"

definition sampleNumberString :: "number \<Rightarrow> string" where
  "sampleNumberString n = (if n = 100 then ''100'' else if n = 250 then ''250'' else ''0'')"

section \<open>Properties\<close>

subsection \<open>Rounding\<close>

lemma roundTiesToEven_of_int: "roundTiesToEven (of_int m) = m"
  by (simp add: roundTiesToEven_def)

lemma ilog2_bound_int:
  assumes "n \<noteq> 0" "\<bar>n\<bar> < 2 ^ 53"
  shows "ilog2 (of_int n) \<le> 52"
proof -
  have q: "quotient_of \<bar>rat_of_int n\<bar> = (\<bar>n\<bar>, 1)"
    by (metis of_int_abs quotient_of_rat_of_int)
  have b1: "bitlen 1 = 1" by (simp add: bitlen_alt_def)
  have "bitlen \<bar>n\<bar> \<le> 53"
    using assms by (simp add: bitlen_le_iff_power)
  then show ?thesis
    by (simp add: ilog2_def q b1 Let_def)
qed

lemma fl_of_int:
  assumes "\<bar>n\<bar> < 2 ^ 53"
  shows "fl (of_int n) = of_int n"
proof (cases "n = 0")
  case True
  then show ?thesis by (simp add: fl_def)
next
  case False
  define e where "e = ulpExp (of_int n)"
  have e0: "e \<le> 0"
    using ilog2_bound_int [OF False assms] by (simp add: e_def ulpExp_def)
  define k where "k = nat (- e)"
  have p: "pow2 e = 1 / 2 ^ k"
    using e0 by (cases "e = 0") (simp_all add: pow2_def k_def)
  have "rat_of_int n / pow2 e = of_int (n * 2 ^ k)"
    by (simp add: p)
  then have "roundTiesToEven (of_int n / pow2 e) = n * 2 ^ k"
    by (simp only: roundTiesToEven_of_int)
  then show ?thesis
    using False by (simp add: fl_def e_def [symmetric] p)
qed


subsection \<open>Sums of whole amounts are exact\<close>

lemma isInteger_iff: "isInteger a \<longleftrightarrow> (\<exists>n. a = of_int n)"
  unfolding isInteger_def by (metis floor_of_int)

lemma fadd_exact:
  assumes "isInteger a" "isInteger b" "\<bar>a\<bar> + \<bar>b\<bar> < 2 ^ 53"
  shows "fadd a b = a + b" "isInteger (a + b)"
proof -
  obtain m n where a: "a = of_int m" and b: "b = of_int n"
    using assms by (auto simp: isInteger_iff)
  have "rat_of_int \<bar>m + n\<bar> \<le> \<bar>a\<bar> + \<bar>b\<bar>" by (simp add: a b)
  also have "\<dots> < 2 ^ 53" by fact
  finally have "rat_of_int \<bar>m + n\<bar> < rat_of_int (2 ^ 53)" by simp
  then have "\<bar>m + n\<bar> < 2 ^ 53" by (simp only: of_int_less_iff)
  then have "fl (of_int (m + n)) = of_int (m + n)" by (rule fl_of_int)
  then show "fadd a b = a + b" by (simp add: fadd_def a b)
  show "isInteger (a + b)" unfolding isInteger_iff a b by (metis of_int_add)
qed

lemma foldl_fadd_exact:
  "isInteger s \<Longrightarrow> list_all isInteger xs \<Longrightarrow> \<bar>s\<bar> + sum_list (map abs xs) < 2 ^ 53
     \<Longrightarrow> foldl fadd s xs = s + sum_list xs"
proof (induction xs arbitrary: s)
  case Nil
  then show ?case by simp
next
  case (Cons x xs)
  have ab: "\<bar>s\<bar> + \<bar>x\<bar> < 2 ^ 53"
  proof -
    have "0 \<le> sum_list (map abs xs)" by (induction xs) simp_all
    with Cons.prems(3) show ?thesis by simp
  qed
  have x: "isInteger x" and xs: "list_all isInteger xs" using Cons.prems(2) by simp_all
  have e: "fadd s x = s + x" and i: "isInteger (s + x)"
    using fadd_exact [OF Cons.prems(1) x ab] by simp_all
  have "\<bar>s + x\<bar> + sum_list (map abs xs) < 2 ^ 53"
    using Cons.prems(3) by (simp add: abs_triangle_ineq [of s x] order.strict_trans1 [rotated])
  from Cons.IH [OF i xs this] show ?case by (simp add: e)
qed

lemma rollup_exact:
  assumes "exactAmounts (map f xs)"
  shows "foldl (\<lambda>sum p. fadd sum (f p)) 0 xs = sum_list (map f xs)"
proof -
  have "foldl (\<lambda>sum p. fadd sum (f p)) 0 xs = foldl fadd 0 (map f xs)"
    by (simp add: foldl_map)
  also have "\<dots> = 0 + sum_list (map f xs)"
    using assms by (intro foldl_fadd_exact) (simp_all add: exactAmounts_def isInteger_def)
  finally show ?thesis by simp
qed

lemma exactAmounts_filter:
  assumes "exactAmounts (map f xs)"
  shows "exactAmounts (map f (filter P xs))"
proof -
  have "sum_list (map abs (map f (filter P xs))) \<le> sum_list (map abs (map f xs))"
    by (induction xs) (auto intro: order_trans)
  moreover have "list_all isInteger (map f xs) \<Longrightarrow> list_all isInteger (map f (filter P xs))"
    by (induction xs) auto
  ultimately show ?thesis using assms by (auto simp: exactAmounts_def)
qed

lemma exactAmounts_mset:
  assumes "mset ys = mset xs" "exactAmounts xs"
  shows "exactAmounts ys"
proof -
  have "set ys = set xs" using assms(1) by (rule mset_eq_setD)
  moreover have "sum_list (map abs ys) = sum_list (map abs xs)"
    using assms(1) by (metis mset_map sum_mset_sum_list)
  ultimately show ?thesis using assms(2) by (simp add: exactAmounts_def list_all_iff)
qed

lemma rollup_perm:
  assumes "mset ys = mset xs" "exactAmounts (map f xs)"
  shows "foldl (\<lambda>sum p. fadd sum (f p)) 0 (filter P ys) = sum_list (map f (filter P xs))"
proof -
  have m: "mset (map f (filter P ys)) = mset (map f (filter P xs))"
    using assms(1) by (metis mset_filter mset_map)
  have "exactAmounts (map f (filter P xs))" using assms(2) by (rule exactAmounts_filter)
  with m have "exactAmounts (map f (filter P ys))" by (rule exactAmounts_mset)
  then have "foldl (\<lambda>sum p. fadd sum (f p)) 0 (filter P ys) = sum_list (map f (filter P ys))"
    by (rule rollup_exact)
  also have "\<dots> = sum_list (map f (filter P xs))"
    using m by (metis sum_mset_sum_list)
  finally show ?thesis .
qed

lemma length_filter_perm:
  "mset ys = mset xs \<Longrightarrow> length (filter P ys) = length (filter P xs)"
  by (metis mset_filter size_mset)

subsection \<open>Rollup: sum and count\<close>

text \<open>
  C7 (as amended). For every list and every reordering of it the counts of a rollup are
  the same. The sums are the same, and equal to the exact total, when the amounts are
  whole numbers whose absolute values add up to less than \<open>2 ^ 53\<close>: there every
  addition is exact. This holds for the ledger's income and expense totals and for the
  partner contributions. Donations of 100 and 250 give sum 350 and count 2 in either order.
\<close>

theorem rollup_order_independent:
  assumes "mset ts' = mset ts" and "mset ps' = mset ps"
  shows "incomeCount ts' = incomeCount ts \<and> expenseCount ts' = expenseCount ts
       \<and> contributingCount ps' = contributingCount ps
       \<and> (exactAmounts (map tx_amount ts) \<longrightarrow>
            totalIncome ts' = sum_list (map tx_amount (filter (\<lambda>t. tx_type t = Income) ts))
            \<and> totalIncome ts' = totalIncome ts
            \<and> totalExpenses ts'
                = sum_list (map tx_amount (filter (\<lambda>t. tx_type t = Expense) ts))
            \<and> totalExpenses ts' = totalExpenses ts)
       \<and> (exactAmounts (map (\<lambda>p. orZero (partner_amount p)) ps) \<longrightarrow>
            totalContributed ps'
              = sum_list (map (\<lambda>p. orZero (partner_amount p)) (contributingPartners ps))
            \<and> totalContributed ps' = totalContributed ps)"
proof -
  have r: "mset ts = mset ts" "mset ps = mset ps" by simp_all
  have c: "incomeCount ts' = incomeCount ts" "expenseCount ts' = expenseCount ts"
    unfolding incomeCount_def expenseCount_def using assms(1) by (rule length_filter_perm)+
  have c': "contributingCount ps' = contributingCount ps"
    unfolding contributingCount_def contributingPartners_def
    using assms(2) by (rule length_filter_perm)
  have t: "totalIncome ts' = sum_list (map tx_amount (filter (\<lambda>t. tx_type t = Income) ts))
      \<and> totalIncome ts' = totalIncome ts
      \<and> totalExpenses ts' = sum_list (map tx_amount (filter (\<lambda>t. tx_type t = Expense) ts))
      \<and> totalExpenses ts' = totalExpenses ts"
    if e: "exactAmounts (map tx_amount ts)"
  proof -
    have "totalIncome ts' = sum_list (map tx_amount (filter (\<lambda>t. tx_type t = Income) ts))"
      unfolding totalIncome_def using assms(1) e by (rule rollup_perm)
    moreover have "totalIncome ts = sum_list (map tx_amount (filter (\<lambda>t. tx_type t = Income) ts))"
      unfolding totalIncome_def using r(1) e by (rule rollup_perm)
    moreover have "totalExpenses ts'
        = sum_list (map tx_amount (filter (\<lambda>t. tx_type t = Expense) ts))"
      unfolding totalExpenses_def using assms(1) e by (rule rollup_perm)
    moreover have "totalExpenses ts
        = sum_list (map tx_amount (filter (\<lambda>t. tx_type t = Expense) ts))"
      unfolding totalExpenses_def using r(1) e by (rule rollup_perm)
    ultimately show ?thesis by simp
  qed
  have p: "totalContributed ps'
        = sum_list (map (\<lambda>p. orZero (partner_amount p)) (contributingPartners ps))
      \<and> totalContributed ps' = totalContributed ps"
    if e: "exactAmounts (map (\<lambda>p. orZero (partner_amount p)) ps)"
  proof -
    have "totalContributed ps'
        = sum_list (map (\<lambda>p. orZero (partner_amount p)) (contributingPartners ps))"
      unfolding totalContributed_def contributingPartners_def
      using assms(2) e by (rule rollup_perm)
    moreover have "totalContributed ps
        = sum_list (map (\<lambda>p. orZero (partner_amount p)) (contributingPartners ps))"
      unfolding totalContributed_def contributingPartners_def using r(2) e by (rule rollup_perm)
    ultimately show ?thesis by simp
  qed
  from c c' t p show ?thesis by blast
qed

theorem rollup_order_independent_witness:
  "totalIncome [ledgerLine 250, ledgerLine 100] = 350
   \<and> totalIncome [ledgerLine 100, ledgerLine 250] = 350
   \<and> incomeCount [ledgerLine 250, ledgerLine 100] = 2
   \<and> incomeCount [ledgerLine 100, ledgerLine 250] = 2
   \<and> totalContributed [partnerOf ''B'' (Some 250), partnerOf ''A'' (Some 100)] = 350
   \<and> totalContributed [partnerOf ''A'' (Some 100), partnerOf ''B'' (Some 250)] = 350
   \<and> contributingCount [partnerOf ''B'' (Some 250), partnerOf ''A'' (Some 100)] = 2
   \<and> incomeCount [ledgerLine (fl (3 / 10)), ledgerLine (fl (2 / 10)), ledgerLine (fl (1 / 10))] = 3
   \<and> incomeCount [ledgerLine (fl (1 / 10)), ledgerLine (fl (2 / 10)), ledgerLine (fl (3 / 10))] = 3"
proof -
  let ?ts = "[ledgerLine 100, ledgerLine 250]" and ?ts' = "[ledgerLine 250, ledgerLine 100]"
  let ?ps = "[partnerOf ''A'' (Some 100), partnerOf ''B'' (Some 250)]"
  let ?ps' = "[partnerOf ''B'' (Some 250), partnerOf ''A'' (Some 100)]"
  let ?fs = "[ledgerLine (fl (1 / 10)), ledgerLine (fl (2 / 10)), ledgerLine (fl (3 / 10))]"
  let ?fs' = "[ledgerLine (fl (3 / 10)), ledgerLine (fl (2 / 10)), ledgerLine (fl (1 / 10))]"
  have h1: "mset ?ts' = mset ?ts" and h1': "mset ?ts = mset ?ts" by simp_all
  have h2: "mset ?ps' = mset ?ps" and h2': "mset ?ps = mset ?ps" by simp_all
  have h3: "mset ?fs' = mset ?fs" by simp
  have e1: "exactAmounts (map tx_amount ?ts)"
    by (simp add: exactAmounts_def ledgerLine_def donationOf_def donationTransaction_def
        orZero_def isInteger_def)
  have e2: "exactAmounts (map (\<lambda>p. orZero (partner_amount p)) ?ps)"
    by (simp add: exactAmounts_def partnerOf_def orZero_def isInteger_def)
  have v: "sum_list (map tx_amount (filter (\<lambda>t. tx_type t = Income) ?ts)) = 350"
    by (simp add: ledgerLine_def donationOf_def donationTransaction_def orZero_def)
  have w: "sum_list (map (\<lambda>p. orZero (partner_amount p)) (contributingPartners ?ps)) = 350"
    by (simp add: contributingPartners_def partnerOf_def orZero_def)
  have c: "incomeCount ?ts = 2" "contributingCount ?ps = 2" "incomeCount ?fs = 3"
    by (simp_all add: incomeCount_def contributingCount_def contributingPartners_def
        ledgerLine_def donationOf_def donationTransaction_def partnerOf_def)
  from rollup_order_independent [OF h1 h2] rollup_order_independent [OF h1' h2']
    rollup_order_independent [OF h3 h2] e1 e2 v w c
  show ?thesis by simp
qed

text \<open>
  C7 as stated fails: the sum is a left-to-right chain of binary64 additions, and with the
  amounts 0.1, 0.2 and 0.3 the two orders round differently
  (0.6000000000000001 against 0.6).
\<close>

theorem rollup_order_counterexample:
  "mset [ledgerLine (fl (3 / 10)), ledgerLine (fl (2 / 10)), ledgerLine (fl (1 / 10))]
     = mset [ledgerLine (fl (1 / 10)), ledgerLine (fl (2 / 10)), ledgerLine (fl (3 / 10))]
   \<and> totalIncome [ledgerLine (fl (1 / 10)), ledgerLine (fl (2 / 10)), ledgerLine (fl (3 / 10))]
     = 5404319552844596 / 9007199254740992
   \<and> totalIncome [ledgerLine (fl (3 / 10)), ledgerLine (fl (2 / 10)), ledgerLine (fl (1 / 10))]
     = 5404319552844595 / 9007199254740992
   \<and> totalIncome [ledgerLine (fl (3 / 10)), ledgerLine (fl (2 / 10)), ledgerLine (fl (1 / 10))]
     \<noteq> totalIncome [ledgerLine (fl (1 / 10)), ledgerLine (fl (2 / 10)), ledgerLine (fl (3 / 10))]"
proof -
  let ?ts = "[ledgerLine (fl (1 / 10)), ledgerLine (fl (2 / 10)), ledgerLine (fl (3 / 10))]"
  let ?ts' = "[ledgerLine (fl (3 / 10)), ledgerLine (fl (2 / 10)), ledgerLine (fl (1 / 10))]"
  have "mset ?ts' = mset ?ts" by simp
  moreover have "totalIncome ?ts = 5404319552844596 / 9007199254740992" by code_simp
  moreover have "totalIncome ?ts' = 5404319552844595 / 9007199254740992" by code_simp
  moreover have "totalIncome ?ts' \<noteq> totalIncome ?ts" by code_simp
  ultimately show ?thesis by blast
qed

subsection \<open>Progress percentages\<close>

lemma Math_round_of_int: "Math_round (of_int n) = of_int n"
proof -
  have "\<lfloor>rat_of_int n + 1 / 2\<rfloor> = n" by linarith
  then show ?thesis by (simp add: Math_round_def)
qed

text \<open>
  C1 (as amended). The width of every progress bar is 0 when \<open>goal \<le> 0\<close> and otherwise
  \<open>min(raised / goal * 100, 100)\<close>: on both versions of the dashboard projects page
  (an absent \<open>raised\<close> counting as 0), on the ledger page, and on the two giving-circle
  pages, where the block is rendered only when the amount received is positive (and, on the
  dashboard, when there are expenses). The figure beside the bar is the unclamped ratio on
  the ledger page (rounded), on the projects page of \<open>app/dashboard\<close> and on the
  dashboard giving-circle page (rounded). Where the page computes it with \<open>progressPct\<close>
  it is the clamped value of the bar, and on the public giving-circle page it is the
  rounded ratio clamped at 100.
\<close>

theorem progress_percentage:
  "progressPct (Some raised) (Some goal) = displayPct raised goal
   \<and> progressPct None (Some goal) = displayPct 0 goal
   \<and> projectsBarWidth (Some raised) goal = displayPct raised goal
   \<and> projectsLabel (Some raised) goal = displayPct raised goal
   \<and> projectsLabel (Some raised) goal \<le> 100
   \<and> dashboardBarWidth (Some raised) goal = displayPct raised goal
   \<and> dashboardLabel (Some raised) goal = (if goal \<le> 0 then 0 else unclampedPct raised goal)
   \<and> ledgerBarWidth p = displayPct (lp_raised p) (lp_goal p)
   \<and> ledgerLabel p =
       (if lp_goal p \<le> 0 then 0 else Math_round (unclampedPct (lp_raised p) (lp_goal p)))
   \<and> givingCircleBarWidth w =
       (if ws_totalReceived w \<le> 0 then None
        else Some (displayPct (totalSpent w) (ws_totalReceived w)))
   \<and> givingCircleLabel w =
       (if ws_totalReceived w \<le> 0 then None
        else Some (min (Math_round (unclampedPct (totalSpent w) (ws_totalReceived w))) 100))
   \<and> adminGivingCircleBarWidth w =
       (if ws_totalReceived w \<le> 0 \<or> expensesOf w = [] then None
        else Some (displayPct (totalSpent w) (ws_totalReceived w)))
   \<and> adminGivingCircleLabel w =
       (if ws_totalReceived w \<le> 0 \<or> expensesOf w = [] then None
        else Some (Math_round (unclampedPct (totalSpent w) (ws_totalReceived w))))"
proof -
  have a: "progressPct (Some raised) (Some goal) = displayPct raised goal"
    by (simp add: progressPct_def displayPct_def unclampedPct_def)
  have b: "progressPct None (Some goal) = displayPct 0 goal"
    by (simp add: progressPct_def displayPct_def unclampedPct_def)
  have c: "displayPct raised goal \<le> 100"
    by (simp add: displayPct_def)
  have d: "ledgerBarWidth p = displayPct (lp_raised p) (lp_goal p)"
    by (simp add: ledgerBarWidth_def displayPct_def unclampedPct_def)
  have e: "ledgerLabel p =
       (if lp_goal p \<le> 0 then 0 else Math_round (unclampedPct (lp_raised p) (lp_goal p)))"
    by (simp add: ledgerLabel_def unclampedPct_def)
  have f: "givingCircleBarWidth w =
       (if ws_totalReceived w \<le> 0 then None
        else Some (displayPct (totalSpent w) (ws_totalReceived w)))"
    by (simp add: givingCircleBarWidth_def displayPct_def unclampedPct_def)
  have g: "givingCircleLabel w =
       (if ws_totalReceived w \<le> 0 then None
        else Some (min (Math_round (unclampedPct (totalSpent w) (ws_totalReceived w))) 100))"
    by (simp add: givingCircleLabel_def unclampedPct_def)
  have h: "dashboardBarWidth (Some raised) goal = displayPct raised goal"
    by (simp add: dashboardBarWidth_def displayPct_def unclampedPct_def orZero_def)
  have i: "dashboardLabel (Some raised) goal
      = (if goal \<le> 0 then 0 else unclampedPct raised goal)"
    by (simp add: dashboardLabel_def unclampedPct_def orZero_def)
  have j: "adminGivingCircleBarWidth w =
       (if ws_totalReceived w \<le> 0 \<or> expensesOf w = [] then None
        else Some (displayPct (totalSpent w) (ws_totalReceived w)))"
    by (simp add: adminGivingCircleBarWidth_def displayPct_def unclampedPct_def)
  have k: "adminGivingCircleLabel w =
       (if ws_totalReceived w \<le> 0 \<or> expensesOf w = [] then None
        else Some (Math_round (unclampedPct (totalSpent w) (ws_totalReceived w))))"
    by (simp add: adminGivingCircleLabel_def unclampedPct_def)
  from a b c d e f g h i j k show ?thesis
    by (simp add: projectsBarWidth_def projectsLabel_def)
qed

theorem progress_percentage_witness:
  "projectsBarWidth (Some 50) 200 = 25 \<and> projectsLabel (Some 50) 200 = 25
   \<and> progressPct (Some 50) (Some 0) = 0 \<and> progressPct None (Some 200) = 0
   \<and> ledgerBarWidth (sampleLedgerProject 150 100) = 100
   \<and> ledgerLabel (sampleLedgerProject 150 100) = 150
   \<and> ledgerLabel (sampleLedgerProject 150 0) = 0"
proof -
  have v: "displayPct 50 200 = 25" "displayPct 50 0 = 0" "displayPct 0 200 = 0"
    "displayPct 150 100 = 100" "unclampedPct 150 100 = 150"
    by code_simp+
  have r: "Math_round 150 = 150" using Math_round_of_int [of 150] by simp
  show ?thesis
    using progress_percentage [of 50 200 "sampleLedgerProject 150 100"]
      progress_percentage [of 50 0 "sampleLedgerProject 150 0"] v r
    by (simp add: sampleLedgerProject_def)
qed

text \<open>
  C1 as stated fails for the figure beside the bar. With 150 raised against a goal of 100
  the unclamped ratio is 150, but the dashboard projects page prints the clamped 100, and
  so does the giving-circle page when 150 are spent of 100 received.
\<close>

theorem progress_label_counterexample:
  "unclampedPct 150 100 = 150
   \<and> projectsLabel (Some 150) 100 = 100
   \<and> projectsLabel (Some 150) 100 \<noteq> unclampedPct 150 100
   \<and> givingCircleLabel (sampleWorkspace 100 [150]) = Some 100"
  by code_simp

subsection \<open>Flattening and sorting the completed items\<close>

lemma foldl_push: "foldl (\<lambda>acc x. acc @ [f x]) a xs = a @ map f xs"
  by (induction xs arbitrary: a) simp_all

lemma mset_pushProject: "mset (pushProject items p) = mset items + expectedItems p"
  by (cases "pj_subProjects p")
    (simp_all add: pushProject_def expectedItems_def foldl_push Let_def)

lemma mset_foldl_pushProject:
  "mset (foldl pushProject items docs) = mset items + (\<Sum>p\<leftarrow>docs. expectedItems p)"
  by (induction docs arbitrary: items) (simp_all add: mset_pushProject add.assoc)

lemma mset_insertSorted: "mset (insertSorted cmp x ys) = add_mset x (mset ys)"
  by (induction ys) simp_all

lemma mset_sortArray: "mset (sortArray cmp xs) = mset xs"
  by (induction xs) (simp_all add: sortArray_def mset_insertSorted)

lemma set_insertSorted: "set (insertSorted cmp x ys) = insert x (set ys)"
  by (induction ys) auto

lemma length_sortArray: "length (sortArray cmp xs) = length xs"
  by (metis mset_sortArray size_mset)

lemma sorted_insertSorted:
  assumes "sorted_wrt (\<lambda>a b. key b \<le> key a) ys"
  shows "sorted_wrt (\<lambda>a b. key b \<le> (key a :: int)) (insertSorted (\<lambda>a b. key b - key a) x ys)"
  using assms
proof (induction ys)
  case Nil
  then show ?case by simp
next
  case (Cons y ys)
  show ?case
  proof (cases "key y - key x \<le> 0")
    case True
    then have "\<forall>z\<in>set ys. key z \<le> key x" using Cons.prems by auto
    with True Cons.prems show ?thesis by simp
  next
    case False
    then have "key x \<le> key y" by simp
    with False Cons show ?thesis by (auto simp: set_insertSorted)
  qed
qed

lemma sorted_sortArray:
  "sorted_wrt (\<lambda>a b. key b \<le> (key a :: int)) (sortArray (\<lambda>a b. key b - key a) xs)"
  by (induction xs) (simp_all add: sortArray_def sorted_insertSorted)

lemma compareItems_key: "compareItems getTime = (\<lambda>a b. dateOf getTime b - dateOf getTime a)"
  by (simp add: compareItems_def fun_eq_iff)

lemma completedItems_sorted:
  "sorted_wrt (\<lambda>a b. dateOf getTime b \<le> dateOf getTime a) (completedItems getTime docs)"
  unfolding completedItems_def compareItems_key by (rule sorted_sortArray)

text \<open>
  C2. For every snapshot of the projects collection the completed-items list holds, as a
  multiset, exactly one item for each completed project that is no parent and one item for
  each completed sub-project of a parent; the item of a sub-project carries the parent's
  title as \<open>parentTitle\<close>, the parent's supporters count and the sub-project's own
  community name. A parent with the sub-projects Well A (completed) and Well B (not
  completed) yields the single item Well A, tagged with the parent's title.
\<close>

theorem flatten_items:
  "mset (completedItems getTime docs) = (\<Sum>p\<leftarrow>docs. expectedItems p)
   \<and> ci_parentTitle (subProjectItem p sub) = Some (pj_title p)
   \<and> ci_supporters (subProjectItem p sub) = pj_supporters p
   \<and> ci_communityName (subProjectItem p sub) = sp_communityName sub"
  by (simp add: completedItems_def mset_sortArray flattenProjects_def mset_foldl_pushProject
      subProjectItem_def)

theorem flatten_items_witness:
  "completedItems sampleGetTime [waterProgram] = [subProjectItem waterProgram wellA]
   \<and> ci_title (subProjectItem waterProgram wellA) = ''Well A''
   \<and> ci_parentTitle (subProjectItem waterProgram wellA) = Some ''Water Program''
   \<and> ci_supporters (subProjectItem waterProgram wellA) = Some 42"
proof -
  have e: "expectedItems waterProgram = {#subProjectItem waterProgram wellA#}"
    by (simp add: expectedItems_def truthy_def waterProgram_def wellA_def wellB_def)
  have "mset (completedItems sampleGetTime [waterProgram]) = {#subProjectItem waterProgram wellA#}"
    using flatten_items [of sampleGetTime "[waterProgram]"] e by simp
  then have "completedItems sampleGetTime [waterProgram] = [subProjectItem waterProgram wellA]"
    by (cases "completedItems sampleGetTime [waterProgram]") auto
  then show ?thesis
    by (simp add: subProjectItem_def waterProgram_def wellA_def)
qed

lemma dateOf_sortKey: "dateOf getTime a = sortKey getTime a"
  by (simp add: dateOf_def sortKey_def completedDateOf_def split: option.splits)

text \<open>
  C6. The completed-items list is sorted by completion date, latest first: of two items
  that both carry a completion date, the one standing earlier has the later (or the same)
  time. An item without a completion date has the sort key 0 (the epoch) and stands after
  every item whose date is later than the epoch.
\<close>

theorem flatten_sorted_by_date:
  "sorted_wrt (\<lambda>a b. sortKey getTime b \<le> sortKey getTime a) (completedItems getTime docs)
   \<and> (\<forall>i j d d'. i < j \<and> j < length (completedItems getTime docs)
         \<and> completedDateOf (completedItems getTime docs ! i) = Some d
         \<and> completedDateOf (completedItems getTime docs ! j) = Some d'
        \<longrightarrow> getTime d' \<le> getTime d)
   \<and> (\<forall>i j d. i < length (completedItems getTime docs)
         \<and> j < length (completedItems getTime docs)
         \<and> completedDateOf (completedItems getTime docs ! i) = None
         \<and> completedDateOf (completedItems getTime docs ! j) = Some d \<and> 0 < getTime d
        \<longrightarrow> j < i)"
proof -
  let ?r = "completedItems getTime docs"
  have "sorted_wrt (\<lambda>a b. dateOf getTime b \<le> dateOf getTime a) ?r"
    by (rule completedItems_sorted)
  then have s: "sorted_wrt (\<lambda>a b. sortKey getTime b \<le> sortKey getTime a) ?r"
    by (simp only: dateOf_sortKey)
  have n: "sortKey getTime (?r ! j) \<le> sortKey getTime (?r ! i)" if "i < j" "j < length ?r" for i j
    using s that by (simp add: sorted_wrt_iff_nth_less)
  have a: "getTime d' \<le> getTime d"
    if "i < j" "j < length ?r" "completedDateOf (?r ! i) = Some d"
      "completedDateOf (?r ! j) = Some d'" for i j d d'
    using n [OF that(1,2)] that(3,4) by (simp add: sortKey_def)
  have b: "j < i"
    if h: "i < length ?r" "j < length ?r" "completedDateOf (?r ! i) = None"
      "completedDateOf (?r ! j) = Some d" "0 < getTime d" for i j d
  proof (rule ccontr)
    assume "\<not> j < i"
    moreover have "i \<noteq> j" using h(3,4) by auto
    ultimately have "i < j" by simp
    from n [OF this h(2)] h(3,4,5) show False by (simp add: sortKey_def)
  qed
  from s a b show ?thesis by blast
qed

theorem flatten_sorted_by_date_witness:
  "completedItems sampleGetTime [clinicProject, schoolProject, waterProgram]
     = [subProjectItem waterProgram wellA, topLevelItem clinicProject, topLevelItem schoolProject]
   \<and> completedDateOf (subProjectItem waterProgram wellA) = Some ''2024-01-01''
   \<and> completedDateOf (topLevelItem clinicProject) = Some ''2023-06-15''
   \<and> completedDateOf (topLevelItem schoolProject) = None
   \<and> sampleGetTime ''2023-06-15'' \<le> sampleGetTime ''2024-01-01''
   \<and> 0 < sampleGetTime ''2023-06-15''
   \<and> (1 :: nat) < 2"
proof -
  let ?r = "completedItems sampleGetTime [clinicProject, schoolProject, waterProgram]"
  have r: "?r = [subProjectItem waterProgram wellA, topLevelItem clinicProject,
      topLevelItem schoolProject]"
    by code_simp
  have d: "completedDateOf (subProjectItem waterProgram wellA) = Some ''2024-01-01''"
    "completedDateOf (topLevelItem clinicProject) = Some ''2023-06-15''"
    "completedDateOf (topLevelItem schoolProject) = None"
    by (simp_all add: completedDateOf_def subProjectItem_def topLevelItem_def wellA_def
        clinicProject_def schoolProject_def noCompletionData_def)
  have p: "0 < sampleGetTime ''2023-06-15''" by (simp add: sampleGetTime_def)
  have h1: "(0 :: nat) < 1 \<and> 1 < length ?r \<and> completedDateOf (?r ! 0) = Some ''2024-01-01''
      \<and> completedDateOf (?r ! 1) = Some ''2023-06-15''"
    using d by (simp add: r)
  have h2: "2 < length ?r \<and> 1 < length ?r \<and> completedDateOf (?r ! 2) = None
      \<and> completedDateOf (?r ! 1) = Some ''2023-06-15'' \<and> 0 < sampleGetTime ''2023-06-15''"
    using d p by (simp add: r)
  note t = flatten_sorted_by_date [of sampleGetTime "[clinicProject, schoolProject, waterProgram]"]
  from t h1 have "sampleGetTime ''2023-06-15'' \<le> sampleGetTime ''2024-01-01''" by blast
  moreover from t h2 have "(1 :: nat) < 2" by blast
  ultimately show ?thesis using r d p by simp
qed

subsection \<open>Merging the partner lists\<close>

text \<open>
  C3. For every seed list and live list the displayed partners are the seed entries
  followed by exactly those live entries whose lowercased name is the lowercased name of
  no seed entry, in their order; on a collision the seed entry is the one shown. The page
  does this with its three founding partners as the seed. Seed Acme with live ACME and
  Beta gives Acme, Beta.
\<close>

theorem merge_partners:
  "displayPartners seed live = seed @ filter (\<lambda>p. \<not> nameCollides seed p) live
   \<and> partnersPage live
       = FOUNDING_PARTNERS @ filter (\<lambda>p. \<not> nameCollides FOUNDING_PARTNERS p) live"
proof -
  have "toLowerCase (partner_name p) \<notin> foundingIds s \<longleftrightarrow> \<not> nameCollides s p" for s p
    unfolding foundingIds_def nameCollides_def list_ex_iff set_map image_iff by metis
  then show ?thesis
    by (simp add: displayPartners_def additionalPartners_def partnersPage_def)
qed

theorem merge_partners_witness:
  "displayPartners [partnerOf ''Acme'' None] [partnerOf ''ACME'' None, partnerOf ''Beta'' None]
     = [partnerOf ''Acme'' None, partnerOf ''Beta'' None]
   \<and> nameCollides [partnerOf ''Acme'' None] (partnerOf ''ACME'' None)
   \<and> \<not> nameCollides [partnerOf ''Acme'' None] (partnerOf ''Beta'' None)"
proof -
  have c: "nameCollides [partnerOf ''Acme'' None] (partnerOf ''ACME'' None)"
    "\<not> nameCollides [partnerOf ''Acme'' None] (partnerOf ''Beta'' None)"
    by code_simp+
  from merge_partners [of "[partnerOf ''Acme'' None]"
      "[partnerOf ''ACME'' None, partnerOf ''Beta'' None]"] c
  show ?thesis by simp
qed

subsection \<open>Completion data written by the dashboard\<close>

lemma trim_eq_Nil: "trim u = [] \<longleftrightarrow> isBlank u"
proof
  assume "trim u = []"
  then have a: "\<forall>c\<in>set (dropWhile isWhiteSpace u). isWhiteSpace c"
    by (simp add: trim_def dropWhile_eq_Nil_conv)
  have "dropWhile isWhiteSpace u = []"
  proof (rule ccontr)
    assume n: "dropWhile isWhiteSpace u \<noteq> []"
    then have "\<not> isWhiteSpace (hd (dropWhile isWhiteSpace u))" by (rule hd_dropWhile)
    moreover have "hd (dropWhile isWhiteSpace u) \<in> set (dropWhile isWhiteSpace u)"
      using n by simp
    ultimately show False using a by blast
  qed
  then show "isBlank u" by (simp add: isBlank_def dropWhile_eq_Nil_conv list_all_iff)
next
  assume "isBlank u"
  then have d: "dropWhile isWhiteSpace u = []"
    by (simp add: isBlank_def dropWhile_eq_Nil_conv list_all_iff)
  show "trim u = []" unfolding trim_def d by simp
qed

lemma updateDoc_ok:
  "writeError e = None \<Longrightarrow> store key = Some d \<Longrightarrow>
     updateDoc e store key upd = Inr (store(key \<mapsto> upd d))"
  by (simp add: updateDoc_def)

lemma completion_persisted:
  assumes "completingProject st = Some cp" "completingSubProject st = None"
    "writeError e = None" "db st (pj_id cp) = Some d"
  shows "db (handleCompletionSubmit e st) (pj_id cp)
       = Some (d\<lparr>pj_isCompleted := Some True,
                 pj_completionData := Some (buildCleanCompletionData (completionFormData st)),
                 pj_updatedAt := Some (serverTimestamp e)\<rparr>)"
  using assms by (simp add: handleCompletionSubmit_def updateDoc_ok alert_def)

lemma completion_persisted_page:
  assumes "completingProject st = Some cp" "writeError e = None" "db st (pj_id cp) = Some d"
  shows "db (handleCompletionSubmit_page e st) (pj_id cp)
       = Some (d\<lparr>pj_isCompleted := Some True,
                 pj_completionData := Some (cleanCompletionData (completionFormData st)),
                 pj_updatedAt := Some (serverTimestamp e)\<rparr>)"
  using assms by (simp add: handleCompletionSubmit_page_def updateDoc_ok alert_def)

text \<open>
  C5. In the completion data the dashboard builds, each of the three image lists is the
  form's list without its blank entries (empty or white space only), the other entries in
  their order; both versions of the projects page build it so, and a successful submission
  for a project stores exactly this payload. Before-images \<open>["", "http://x/1.jpg", ""]\<close>
  are stored as \<open>["http://x/1.jpg"]\<close>.
\<close>

theorem image_lists_cleaned:
  assumes "completingProject st = Some cp" and "completingSubProject st = None"
    and "writeError e = None" and "db st (pj_id cp) = Some d"
  shows "cd_beforeImages (buildCleanCompletionData f)
           = Some (filter (\<lambda>u. \<not> isBlank u) (cf_beforeImages f))
       \<and> cd_afterImages (buildCleanCompletionData f)
           = Some (filter (\<lambda>u. \<not> isBlank u) (cf_afterImages f))
       \<and> cd_progressImages (buildCleanCompletionData f)
           = Some (filter (\<lambda>u. \<not> isBlank u) (cf_progressImages f))
       \<and> cd_beforeImages (cleanCompletionData f)
           = Some (filter (\<lambda>u. \<not> isBlank u) (cf_beforeImages f))
       \<and> cd_afterImages (cleanCompletionData f)
           = Some (filter (\<lambda>u. \<not> isBlank u) (cf_afterImages f))
       \<and> cd_progressImages (cleanCompletionData f)
           = Some (filter (\<lambda>u. \<not> isBlank u) (cf_progressImages f))
       \<and> persistedCompletionData (handleCompletionSubmit e st) (pj_id cp)
           = Some (buildCleanCompletionData (completionFormData st))
       \<and> persistedCompletionData (handleCompletionSubmit_page e st) (pj_id cp)
           = Some (cleanCompletionData (completionFormData st))"
proof -
  have "persistedCompletionData (handleCompletionSubmit e st) (pj_id cp)
      = Some (buildCleanCompletionData (completionFormData st))"
    using completion_persisted [OF assms] by (simp add: persistedCompletionData_def)
  moreover have "persistedCompletionData (handleCompletionSubmit_page e st) (pj_id cp)
      = Some (cleanCompletionData (completionFormData st))"
    using completion_persisted_page [OF assms(1,3,4)] by (simp add: persistedCompletionData_def)
  ultimately show ?thesis
    by (simp add: buildCleanCompletionData_def cleanCompletionData_def trim_eq_Nil)
qed

theorem image_lists_cleaned_witness:
  "Option.bind (persistedCompletionData (handleCompletionSubmit sampleEnv samplePage) ''p2'')
     cd_beforeImages = Some [''http://x/1.jpg'']
   \<and> Option.bind (persistedCompletionData (handleCompletionSubmit_page sampleEnv samplePage) ''p2'')
     cd_beforeImages = Some [''http://x/1.jpg'']
   \<and> cf_beforeImages sampleCompletionForm = [[], ''http://x/1.jpg'', []]"
proof -
  have h1: "completingProject samplePage = Some schoolProject"
    and h2: "completingSubProject samplePage = None"
    and h3: "writeError sampleEnv = None"
    and h4: "db samplePage (pj_id schoolProject) = Some schoolProject"
    by (simp_all add: samplePage_def sampleEnv_def schoolProject_def)
  have k: "pj_id schoolProject = ''p2''" "completionFormData samplePage = sampleCompletionForm"
    by (simp_all add: samplePage_def schoolProject_def)
  have b: "\<not> isBlank ''http://x/1.jpg''" "isBlank []"
    by (simp_all add: isBlank_def isWhiteSpace_def)
  from image_lists_cleaned [OF h1 h2 h3 h4, of sampleCompletionForm] k b
  show ?thesis by (simp add: sampleCompletionForm_def)
qed

text \<open>
  C4 (as amended). The testimonials of the completion data are the form's testimonials
  without every entry whose name is blank or whose text is blank: an entry is kept only
  when both are filled in. Both versions of the projects page build it so, and a
  successful submission for a project stores exactly this list.
\<close>

theorem testimonials_cleaned:
  assumes "completingProject st = Some cp" and "completingSubProject st = None"
    and "writeError e = None" and "db st (pj_id cp) = Some d"
  shows "cd_testimonials (buildCleanCompletionData f)
           = Some (filter (\<lambda>t. \<not> (isBlank (t_name t) \<or> isBlank (t_text t))) (cf_testimonials f))
       \<and> cd_testimonials (cleanCompletionData f)
           = Some (filter (\<lambda>t. \<not> (isBlank (t_name t) \<or> isBlank (t_text t))) (cf_testimonials f))
       \<and> Option.bind (persistedCompletionData (handleCompletionSubmit e st) (pj_id cp))
            cd_testimonials
           = Some (filter (\<lambda>t. \<not> (isBlank (t_name t) \<or> isBlank (t_text t)))
                (cf_testimonials (completionFormData st)))
       \<and> Option.bind (persistedCompletionData (handleCompletionSubmit_page e st) (pj_id cp))
            cd_testimonials
           = Some (filter (\<lambda>t. \<not> (isBlank (t_name t) \<or> isBlank (t_text t)))
                (cf_testimonials (completionFormData st)))"
proof -
  have a: "cd_testimonials (buildCleanCompletionData g)
      = Some (filter (\<lambda>t. \<not> (isBlank (t_name t) \<or> isBlank (t_text t))) (cf_testimonials g))"
    and b: "cd_testimonials (cleanCompletionData g)
      = Some (filter (\<lambda>t. \<not> (isBlank (t_name t) \<or> isBlank (t_text t))) (cf_testimonials g))"
    for g
    by (simp_all add: buildCleanCompletionData_def cleanCompletionData_def trim_eq_Nil)
  have "persistedCompletionData (handleCompletionSubmit e st) (pj_id cp)
      = Some (buildCleanCompletionData (completionFormData st))"
    using completion_persisted [OF assms] by (simp add: persistedCompletionData_def)
  moreover have "persistedCompletionData (handleCompletionSubmit_page e st) (pj_id cp)
      = Some (cleanCompletionData (completionFormData st))"
    using completion_persisted_page [OF assms(1,3,4)] by (simp add: persistedCompletionData_def)
  ultimately show ?thesis using a b by simp
qed

theorem testimonials_cleaned_witness:
  "Option.bind (persistedCompletionData (handleCompletionSubmit sampleEnv samplePage) ''p2'')
     cd_testimonials
     = Some [\<lparr>t_name = ''Bello'', t_text = ''Clean water at last'', t_role = Some ''Elder''\<rparr>]
   \<and> length (cf_testimonials sampleCompletionForm) = 3"
proof -
  have h1: "completingProject samplePage = Some schoolProject"
    and h2: "completingSubProject samplePage = None"
    and h3: "writeError sampleEnv = None"
    and h4: "db samplePage (pj_id schoolProject) = Some schoolProject"
    by (simp_all add: samplePage_def sampleEnv_def schoolProject_def)
  have k: "pj_id schoolProject = ''p2''" "completionFormData samplePage = sampleCompletionForm"
    by (simp_all add: samplePage_def schoolProject_def)
  have b: "\<not> isBlank ''Amina''" "\<not> isBlank ''Bello''" "\<not> isBlank ''Clean water at last''"
    "isBlank []"
    by (simp_all add: isBlank_def isWhiteSpace_def)
  from testimonials_cleaned [OF h1 h2 h3 h4, of sampleCompletionForm] k b
  show ?thesis by (simp add: sampleCompletionForm_def)
qed

text \<open>
  C4 as stated fails: the entry of Amina has a name and a blank text, and it is removed,
  where the claim keeps every entry that is not missing both.
\<close>

theorem testimonials_counterexample:
  "cf_testimonials sampleCompletionForm ! 0 = \<lparr>t_name = ''Amina'', t_text = [], t_role = Some []\<rparr>
   \<and> \<not> isBlank ''Amina''
   \<and> cd_testimonials (buildCleanCompletionData sampleCompletionForm)
       = Some [\<lparr>t_name = ''Bello'', t_text = ''Clean water at last'', t_role = Some ''Elder''\<rparr>]
   \<and> cd_testimonials (cleanCompletionData sampleCompletionForm)
       = Some [\<lparr>t_name = ''Bello'', t_text = ''Clean water at last'', t_role = Some ''Elder''\<rparr>]"
  by code_simp

subsection \<open>Validation of the project form\<close>

text \<open>
  C8. When the title is empty, the description is empty or the goal is not positive, the
  submit handler of the project form raises one alert and does nothing else: the state it
  returns is the state it got with the alert added, so no document is written and the
  collection is unchanged. This holds for both versions of the projects page.
\<close>

theorem validation_blocks_write:
  assumes "pf_title (formData st) = [] \<or> pf_description (formData st) = []
           \<or> pf_goal (formData st) \<le> 0"
  shows "handleProjectSubmit e st = alert ''Please fill in all required fields'' st
       \<and> db (handleProjectSubmit e st) = db st
       \<and> alerts (handleProjectSubmit e st) = alerts st @ [''Please fill in all required fields'']
       \<and> handleSubmit e st
           = alert ''Please fill in all required fields (Title, Description, Goal)'' st
       \<and> db (handleSubmit e st) = db st
       \<and> alerts (handleSubmit e st)
           = alerts st @ [''Please fill in all required fields (Title, Description, Goal)'']"
  using assms by (auto simp: handleProjectSubmit_def handleSubmit_def alert_def Let_def)

theorem validation_blocks_write_witness:
  "db (handleProjectSubmit sampleEnv (samplePage\<lparr>formData := sampleProjectForm\<lparr>pf_goal := 0\<rparr>\<rparr>))
     = db samplePage
   \<and> alerts (handleProjectSubmit sampleEnv (samplePage\<lparr>formData := sampleProjectForm\<lparr>pf_goal := 0\<rparr>\<rparr>))
     = [''Please fill in all required fields'']
   \<and> db (handleSubmit sampleEnv (samplePage\<lparr>formData := sampleProjectForm\<lparr>pf_goal := 0\<rparr>\<rparr>))
     = db samplePage"
proof -
  let ?st = "samplePage\<lparr>formData := sampleProjectForm\<lparr>pf_goal := 0\<rparr>\<rparr>"
  have h: "pf_title (formData ?st) = [] \<or> pf_description (formData ?st) = []
      \<or> pf_goal (formData ?st) \<le> 0"
    by simp
  have a: "alerts ?st = []" "db ?st = db samplePage" by (simp_all add: samplePage_def)
  from validation_blocks_write [OF h, of sampleEnv] a show ?thesis by (simp add: alert_def)
qed

subsection \<open>The exported ledger\<close>

lemma join_row:
  "join '','' (map quoteCell [a, b, c, d, e, f, g])
     = concat [[CHR 0x22], a, [CHR 0x22], '','', [CHR 0x22], b, [CHR 0x22], '','',
        [CHR 0x22], c, [CHR 0x22], '','', [CHR 0x22], d, [CHR 0x22], '','',
        [CHR 0x22], e, [CHR 0x22], '','', [CHR 0x22], f, [CHR 0x22], '','',
        [CHR 0x22], g, [CHR 0x22]]"
  by (simp add: join_def quoteCell_def)

lemma join_headers:
  "join '','' headers = ''Date,Type,Description,Project,Amount,Category,Receipt/Payment''"
  by (simp add: join_def headers_def)

lemma download_date:
  assumes "CHR ''T'' \<notin> set date"
  shows "download (date @ CHR ''T'' # rest) = ''ledger-'' @ date @ ''.csv''"
proof -
  have "takeWhile (\<lambda>c. c \<noteq> CHR ''T'') (date @ CHR ''T'' # rest) = date"
    using assms by (induction date) auto
  then show ?thesis by (simp add: download_def)
qed

text \<open>
  C9. For every list of ledger lines the exported file starts with the header row
  \<open>Date,Type,Description,Project,Amount,Category,Receipt/Payment\<close>, followed, each on a
  new line, by one row for every line of the ledger in the order of the list (all of them,
  whatever the page's filter shows); a row is the seven fields of its line, each wrapped in
  double quotes, with commas between them. The file is named \<open>ledger-\<close>, the date part
  of the current ISO time, \<open>.csv\<close>.
\<close>

theorem csv_export:
  assumes "now = date @ CHR ''T'' # rest" and "CHR ''T'' \<notin> set date"
  shows "fst (exportToCSV toLocaleDateString numberToString now ts) = ''ledger-'' @ date @ ''.csv''
       \<and> snd (exportToCSV toLocaleDateString numberToString now ts)
           = ''Date,Type,Description,Project,Amount,Category,Receipt/Payment''
             @ concat (map (\<lambda>t. CHR 0x0A # quotedLine toLocaleDateString numberToString t) ts)
       \<and> length (csvData toLocaleDateString numberToString ts) = length ts
       \<and> list_all (\<lambda>row. length row = 7) (csvData toLocaleDateString numberToString ts)"
proof -
  have f: "fst (exportToCSV toLocaleDateString numberToString now ts) = ''ledger-'' @ date @ ''.csv''"
    using assms by (simp add: exportToCSV_def download_date)
  have r: "map (\<lambda>row. join '','' (map quoteCell row)) (csvData toLocaleDateString numberToString ts)
      = map (quotedLine toLocaleDateString numberToString) ts"
    by (simp add: csvData_def quotedLine_def join_def quoteCell_def)
  have c: "snd (exportToCSV toLocaleDateString numberToString now ts)
      = ''Date,Type,Description,Project,Amount,Category,Receipt/Payment''
        @ concat (map (\<lambda>t. CHR 0x0A # quotedLine toLocaleDateString numberToString t) ts)"
    unfolding exportToCSV_def csvContent_def r join_headers
    by (simp add: join_def o_def)
  have l: "length (csvData toLocaleDateString numberToString ts) = length ts"
    "list_all (\<lambda>row. length row = 7) (csvData toLocaleDateString numberToString ts)"
    by (simp_all add: csvData_def list_all_iff)
  from f c l show ?thesis by blast
qed

theorem csv_export_witness:
  "fst (exportToCSV sampleDateString sampleNumberString ''2024-06-01T08:15:00.000Z''
          [ledgerLine 100, ledgerLine 250]) = ''ledger-2024-06-01.csv''
   \<and> snd (exportToCSV sampleDateString sampleNumberString ''2024-06-01T08:15:00.000Z''
          [ledgerLine 100, ledgerLine 250])
       = ''Date,Type,Description,Project,Amount,Category,Receipt/Payment''
         @ CHR 0x0A # quotedLine sampleDateString sampleNumberString (ledgerLine 100)
         @ CHR 0x0A # quotedLine sampleDateString sampleNumberString (ledgerLine 250)
   \<and> quotedLine sampleDateString sampleNumberString (ledgerLine 100)
       = CHR 0x22 # ''2024-05-01'' @ CHR 0x22 # '','' @ CHR 0x22 # ''income'' @ CHR 0x22 # '',''
         @ CHR 0x22 # ''Donation from Anonymous'' @ CHR 0x22 # '','' @ CHR 0x22 # ''General''
         @ CHR 0x22 # '','' @ CHR 0x22 # ''100'' @ CHR 0x22 # '','' @ CHR 0x22 # ''donation''
         @ CHR 0x22 # '','' @ CHR 0x22 # ''Stripe'' @ [CHR 0x22]"
proof -
  have h1: "''2024-06-01T08:15:00.000Z'' = ''2024-06-01'' @ CHR ''T'' # ''08:15:00.000Z''"
    by simp
  have h2: "CHR ''T'' \<notin> set ''2024-06-01''" by simp
  have q: "quotedLine sampleDateString sampleNumberString (ledgerLine 100)
       = CHR 0x22 # ''2024-05-01'' @ CHR 0x22 # '','' @ CHR 0x22 # ''income'' @ CHR 0x22 # '',''
         @ CHR 0x22 # ''Donation from Anonymous'' @ CHR 0x22 # '','' @ CHR 0x22 # ''General''
         @ CHR 0x22 # '','' @ CHR 0x22 # ''100'' @ CHR 0x22 # '','' @ CHR 0x22 # ''donation''
         @ CHR 0x22 # '','' @ CHR 0x22 # ''Stripe'' @ [CHR 0x22]"
    by code_simp
  from csv_export [OF h1 h2, of sampleDateString sampleNumberString
      "[ledgerLine 100, ledgerLine 250]"] q
  show ?thesis by simp
qed

subsection \<open>Writes of an embedded array\<close>

lemma othersOf_map:
  assumes "\<And>x. ident x = target \<Longrightarrow> ident (upd x) = target"
  shows "othersOf ident target (map (\<lambda>x. if ident x = target then upd x else x) xs)
       = othersOf ident target xs"
  using assms by (induction xs) (simp_all add: othersOf_def)

lemma unchangedElsewhere_map:
  "unchangedElsewhere ident target xs (map (\<lambda>x. if ident x = target then upd x else x) xs)"
  by (induction xs) (simp_all add: unchangedElsewhere_def)

lemma unchangedElsewhere_nth:
  assumes "unchangedElsewhere ident target xs ys" "i < length xs" "ident (xs ! i) \<noteq> target"
  shows "length ys = length xs \<and> ys ! i = xs ! i"
  using assms by (auto simp: unchangedElsewhere_def list_all2_conv_all_nth)

lemma subProject_edit_persisted:
  assumes "writeError e = None" "subModalParent st = Some parent"
    "editingSubProject st = Some editing" "sf_title (subFormData st) \<noteq> []"
    "0 < sf_goal (subFormData st)" "db st (pj_id parent) = Some d"
  shows "persistedSubProjects (handleSubProjectSubmit e st) (pj_id parent)
       = Some (editedSubProjects (subFormData st) editing (subProjectsOf parent))"
  using assms
  by (simp add: handleSubProjectSubmit_def persistedSubProjects_def updateDoc_ok Let_def)

lemma subProject_completion_persisted:
  assumes "writeError e = None" "completingProject st = Some cp"
    "completingSubProject st = Some cs" "db st (pj_id cp) = Some d"
  shows "persistedSubProjects (handleCompletionSubmit e st) (pj_id cp)
       = Some (completedSubProjects (buildCleanCompletionData (completionFormData st)) cs
           (subProjectsOf cp))"
  using assms
  by (simp add: handleCompletionSubmit_def persistedSubProjects_def updateDoc_ok Let_def alert_def)

lemma expense_edit_persisted:
  assumes "writeError e = None" "gc_expenseParent g = Some w" "gc_editingExpense g = Some ee"
    "ef_description (gc_expenseForm g) \<noteq> []" "gc_db g (ws_id w) = Some wd"
  shows "persistedExpenses (handleExpenseSubmit e g) (ws_id w)
       = Some (editedExpenses (gc_expenseForm g) ee (expensesOf w))"
  using assms
  by (simp add: handleExpenseSubmit_def persistedExpenses_def updateDoc_ok Let_def)

lemma expense_delete_persisted:
  assumes "writeError e = None" "gc_deletingExpense g = Some (de, w)" "ws_expenses w = Some es"
    "gc_db g (ws_id w) = Some wd"
  shows "persistedExpenses (handleDeleteExpense e g) (ws_id w) = Some (remainingExpenses de es)"
  using assms
  by (simp add: handleDeleteExpense_def persistedExpenses_def updateDoc_ok)

text \<open>
  C10. Editing a sub-project, marking a sub-project as completed and editing an expense
  write an array of the length of the parent's array in which every element whose id is
  not the targeted one is the parent's element at the same place; deleting an expense
  writes the parent's array without the elements of the targeted id. In all four the
  elements of the other ids are the parent's, unchanged and in their order. The parent's
  array is the one of the parent object the page holds when the form is submitted.
\<close>

theorem embedded_array_frame:
  assumes ok: "writeError e = None"
    and sub: "subModalParent st = Some parent" "editingSubProject st = Some editing"
      "sf_title (subFormData st) \<noteq> []" "0 < sf_goal (subFormData st)"
      "db st (pj_id parent) = Some d"
    and comp: "completingProject st' = Some cp" "completingSubProject st' = Some cs"
      "db st' (pj_id cp) = Some d'"
    and ex: "gc_expenseParent g = Some w" "gc_editingExpense g = Some ee"
      "ef_description (gc_expenseForm g) \<noteq> []" "gc_db g (ws_id w) = Some wd"
    and del: "gc_deletingExpense g' = Some (de, w')" "ws_expenses w' = Some es"
      "gc_db g' (ws_id w') = Some wd'"
  shows "(\<exists>written. persistedSubProjects (handleSubProjectSubmit e st) (pj_id parent) = Some written
          \<and> unchangedElsewhere sp_id (sp_id editing) (subProjectsOf parent) written
          \<and> othersOf sp_id (sp_id editing) written
              = othersOf sp_id (sp_id editing) (subProjectsOf parent))
       \<and> (\<exists>written. persistedSubProjects (handleCompletionSubmit e st') (pj_id cp) = Some written
          \<and> unchangedElsewhere sp_id (sp_id cs) (subProjectsOf cp) written
          \<and> othersOf sp_id (sp_id cs) written = othersOf sp_id (sp_id cs) (subProjectsOf cp))
       \<and> (\<exists>written. persistedExpenses (handleExpenseSubmit e g) (ws_id w) = Some written
          \<and> unchangedElsewhere ex_id (ex_id ee) (expensesOf w) written
          \<and> othersOf ex_id (ex_id ee) written = othersOf ex_id (ex_id ee) (expensesOf w))
       \<and> persistedExpenses (handleDeleteExpense e g') (ws_id w')
           = Some (othersOf ex_id (ex_id de) es)"
proof -
  have a: "\<exists>written. persistedSubProjects (handleSubProjectSubmit e st) (pj_id parent) = Some written
          \<and> unchangedElsewhere sp_id (sp_id editing) (subProjectsOf parent) written
          \<and> othersOf sp_id (sp_id editing) written
              = othersOf sp_id (sp_id editing) (subProjectsOf parent)"
    unfolding subProject_edit_persisted [OF ok sub] editedSubProjects_def
    by (simp add: unchangedElsewhere_map othersOf_map spreadSubFormData_def)
  have b: "\<exists>written. persistedSubProjects (handleCompletionSubmit e st') (pj_id cp) = Some written
          \<and> unchangedElsewhere sp_id (sp_id cs) (subProjectsOf cp) written
          \<and> othersOf sp_id (sp_id cs) written = othersOf sp_id (sp_id cs) (subProjectsOf cp)"
    unfolding subProject_completion_persisted [OF ok comp] completedSubProjects_def
    by (simp add: unchangedElsewhere_map othersOf_map)
  have c: "\<exists>written. persistedExpenses (handleExpenseSubmit e g) (ws_id w) = Some written
          \<and> unchangedElsewhere ex_id (ex_id ee) (expensesOf w) written
          \<and> othersOf ex_id (ex_id ee) written = othersOf ex_id (ex_id ee) (expensesOf w)"
    unfolding expense_edit_persisted [OF ok ex] editedExpenses_def
    by (simp add: unchangedElsewhere_map othersOf_map spreadExpenseForm_def)
  have d: "persistedExpenses (handleDeleteExpense e g') (ws_id w')
           = Some (othersOf ex_id (ex_id de) es)"
    unfolding expense_delete_persisted [OF ok del]
    by (simp add: remainingExpenses_def othersOf_def)
  from a b c d show ?thesis by blast
qed

theorem embedded_array_frame_witness:
  "(\<exists>written. persistedSubProjects (handleSubProjectSubmit sampleEnv samplePage) ''p1''
        = Some written \<and> othersOf sp_id ''sub_b'' written = [wellA])
   \<and> (\<exists>written. persistedSubProjects
          (handleCompletionSubmit sampleEnv
             (samplePage\<lparr>completingProject := Some waterProgram,
                          completingSubProject := Some wellB\<rparr>)) ''p1''
        = Some written \<and> othersOf sp_id ''sub_b'' written = [wellA])
   \<and> (\<exists>written. persistedExpenses (handleExpenseSubmit sampleEnv sampleGivingCirclePage) ''w1''
        = Some written \<and> othersOf ex_id ''exp_2'' written = [pumpExpense, tankExpense])
   \<and> persistedExpenses (handleDeleteExpense sampleEnv sampleGivingCirclePage) ''w1''
       = Some [pumpExpense, tankExpense]"
proof -
  let ?st' = "samplePage\<lparr>completingProject := Some waterProgram,
                          completingSubProject := Some wellB\<rparr>"
  have ok: "writeError sampleEnv = None" by (simp add: sampleEnv_def)
  have sub: "subModalParent samplePage = Some waterProgram"
    "editingSubProject samplePage = Some wellB"
    "sf_title (subFormData samplePage) \<noteq> []" "0 < sf_goal (subFormData samplePage)"
    "db samplePage (pj_id waterProgram) = Some waterProgram"
    by (simp_all add: samplePage_def sampleSubForm_def waterProgram_def schoolProject_def)
  have comp: "completingProject ?st' = Some waterProgram"
    "completingSubProject ?st' = Some wellB"
    "db ?st' (pj_id waterProgram) = Some waterProgram"
    by (simp_all add: samplePage_def waterProgram_def schoolProject_def)
  have ex: "gc_expenseParent sampleGivingCirclePage = Some acmeWorkspace"
    "gc_editingExpense sampleGivingCirclePage = Some pipeExpense"
    "ef_description (gc_expenseForm sampleGivingCirclePage) \<noteq> []"
    "gc_db sampleGivingCirclePage (ws_id acmeWorkspace) = Some acmeWorkspace"
    by (simp_all add: sampleGivingCirclePage_def acmeWorkspace_def)
  have del: "gc_deletingExpense sampleGivingCirclePage = Some (pipeExpense, acmeWorkspace)"
    "ws_expenses acmeWorkspace = Some [pumpExpense, pipeExpense, tankExpense]"
    "gc_db sampleGivingCirclePage (ws_id acmeWorkspace) = Some acmeWorkspace"
    by (simp_all add: sampleGivingCirclePage_def acmeWorkspace_def)
  have v: "pj_id waterProgram = ''p1''" "sp_id wellB = ''sub_b''"
    "ws_id acmeWorkspace = ''w1''" "ex_id pipeExpense = ''exp_2''"
    "othersOf sp_id ''sub_b'' (subProjectsOf waterProgram) = [wellA]"
    "othersOf ex_id ''exp_2'' (expensesOf acmeWorkspace) = [pumpExpense, tankExpense]"
    "othersOf ex_id ''exp_2'' [pumpExpense, pipeExpense, tankExpense] = [pumpExpense, tankExpense]"
    by (simp_all add: waterProgram_def wellA_def wellB_def acmeWorkspace_def pumpExpense_def
        pipeExpense_def tankExpense_def othersOf_def subProjectsOf_def expensesOf_def)
  from embedded_array_frame [OF ok sub comp ex del] v show ?thesis by auto
qed

end
